theory Spec2Isabelle
  imports Main "HOL-Library.Log_Nat"
begin

section \<open>Smart University CMS: entity store and controllers\<close>

text \<open>
  The controllers of the repository read and write six MongoDB collections through
  Mongoose models. The embedding keeps each collection as the list of its documents,
  a controller as a function from the store (and the request) to a reply and the new
  store, and every early \<^verbatim>\<open>return res.status(...)\<close> or thrown error as an
  \<open>Inl\<close> reply.

  Both response modes of a controller (JSON, or flash message and redirect) perform the
  same reads and writes; the reply below names the JSON status and message.
\<close>

subsection \<open>Identifiers and strings\<close>

text \<open>
  An \<^verbatim>\<open>ObjectId\<close> is used by the code only through equality and through its
  string form (\<^verbatim>\<open>String(id)\<close>, \<^verbatim>\<open>toString()\<close>); it is modelled by that string.
  Every string but the empty one stands for a well-formed id: a reference of a request
  that Mongoose cannot cast to an \<^verbatim>\<open>ObjectId\<close> is outside the model.
\<close>

type_synonym oid = string

subsection \<open>Documents\<close>

text \<open>
  Fields that no modelled operation reads or writes (descriptions, timestamps, fee,
  duration, dates of a Course, lecturer and learning outcomes of a Module) are left
  out of the records. Credits, semester and year are integers: the controllers write
  them from \<^verbatim>\<open>parseInt\<close>. A date is the number of its milliseconds.
\<close>

record Department =
  dep_id :: oid
  dep_name :: string
  dep_code :: string
  dep_isActive :: bool

record Course =
  crs_id :: oid
  crs_name :: string
  crs_code :: string
  crs_department :: oid
  crs_isActive :: bool

text \<open>
  The three assessment weights of a Module are JavaScript numbers. Their type is the
  parameter \<open>'n\<close> of the record, and the tests that the code makes on them are
  parameters of the functions that use them; \<open>jsnum\<close> and \<open>double_ops\<close> below are
  the numbers and the tests of the code.
\<close>

record 'n Module =
  mod_id :: oid
  mod_name :: string
  mod_code :: string
  mod_course :: oid
  mod_department :: oid
  mod_credits :: int
  mod_semester :: int
  mod_isCore :: bool
  mod_exam :: 'n
  mod_coursework :: 'n
  mod_practical :: 'n
  mod_prerequisites :: "oid list"

datatype student_status = active | graduated | on_leave | inactive

record Student =
  stu_id :: oid
  stu_name :: string
  stu_email :: string
  stu_rollNumber :: string
  stu_department :: oid
  stu_course :: oid
  stu_year :: int
  stu_semester :: int
  stu_enrollmentDate :: nat
  stu_status :: student_status
  stu_notes :: "string option"
  stu_user :: "oid option"

text \<open>
  Modelled from the spec: the User schema (\<^verbatim>\<open>models/User\<close>) is not among the
  sources. The spec gives its fields: name, email (unique), password (stored hashed),
  role and isActive.
\<close>

record User =
  usr_id :: oid
  usr_name :: string
  usr_email :: string
  usr_password :: string
  usr_role :: string
  usr_isActive :: bool

datatype enrollment_status = enrolled | dropped

record Enrollment =
  enr_id :: oid
  enr_user :: oid
  enr_course :: oid
  enr_status :: enrollment_status
  enr_joinedAt :: nat

record 'n store =
  departments :: "Department list"
  courses :: "Course list"
  modules :: "'n Module list"
  students :: "Student list"
  users :: "User list"
  enrollments :: "Enrollment list"

subsection \<open>Replies\<close>

text \<open>
  The error conditions of the controllers, under the names of the spec:
  \<^item> \<open>NotFound\<close>: the 404 replies (\<^verbatim>\<open>'... not found'\<close>);
  \<^item> \<open>DuplicateKey msg\<close>: the 400 replies \<^verbatim>\<open>'... already exists'\<close>, with the
    message of the source;
  \<^item> \<open>HasDependents\<close>: the 400 replies \<^verbatim>\<open>'Cannot delete ...'\<close>;
  \<^item> \<open>ValidationError\<close>: the 400 replies on weights and passwords, and a Mongoose
    validation error thrown by \<^verbatim>\<open>save()\<close>;
  \<^item> \<open>MissingReference\<close>, \<open>ReferenceMismatch\<close>: the errors thrown by the pre-save
    hooks;
  \<^item> \<open>E11000\<close>: the duplicate-key error (code 11000) thrown by the database when an
    insert or update violates a unique index.
\<close>

datatype error =
    NotFound
  | DuplicateKey string
  | HasDependents
  | ValidationError
  | MissingReference
  | ReferenceMismatch
  | E11000

subsection \<open>Mongoose queries on a collection\<close>

text \<open>
  A query is given by the predicate of its filter. The value of a filter on a string
  path is cast with the schema of the path: Mongoose (from version 5) applies the
  setters of the path (\<^verbatim>\<open>trim\<close>, \<^verbatim>\<open>uppercase\<close>, \<^verbatim>\<open>lowercase\<close>) to it, as it does
  to a value assigned to a document. The functions \<open>cast_code\<close>, \<open>cast_email\<close> and
  \<open>cast_rollNumber\<close> below are these setters.
\<close>

definition findOne :: "('a \<Rightarrow> bool) \<Rightarrow> 'a list \<Rightarrow> 'a option" where
  "findOne p xs = find p xs"

definition findById :: "('a \<Rightarrow> oid) \<Rightarrow> oid \<Rightarrow> 'a list \<Rightarrow> 'a option" where
  "findById ident i xs = findOne (\<lambda>x. ident x = i) xs"

definition countDocuments :: "('a \<Rightarrow> bool) \<Rightarrow> 'a list \<Rightarrow> nat" where
  "countDocuments p xs = length (filter p xs)"

definition deleteMany :: "('a \<Rightarrow> bool) \<Rightarrow> 'a list \<Rightarrow> 'a list" where
  "deleteMany p xs = filter (\<lambda>x. \<not> p x) xs"

text \<open>
  \<^verbatim>\<open>doc.remove()\<close> (a document method of Mongoose up to version 6, which runs the
  \<^verbatim>\<open>pre('remove')\<close> hooks of the schema first) and \<^verbatim>\<open>doc.deleteOne()\<close> delete the
  document with the \<^verbatim>\<open>_id\<close> of \<^verbatim>\<open>doc\<close>; \<^verbatim>\<open>_id\<close> is unique in a collection.
\<close>

definition deleteById :: "('a \<Rightarrow> oid) \<Rightarrow> oid \<Rightarrow> 'a list \<Rightarrow> 'a list" where
  "deleteById ident i xs = deleteMany (\<lambda>x. ident x = i) xs"

subsection \<open>Strings\<close>

text \<open>
  \<^verbatim>\<open>toUpperCase\<close>, \<^verbatim>\<open>toLowerCase\<close> and \<^verbatim>\<open>trim\<close> on ASCII strings: the letters
  \<^verbatim>\<open>a\<close> to \<^verbatim>\<open>z\<close> and \<^verbatim>\<open>A\<close> to \<^verbatim>\<open>Z\<close> change case, the white space is
  tab, line feed, vertical tab, form feed, carriage return and space. Characters
  beyond ASCII are left as they are.
\<close>

definition toUpperCase_char :: "char \<Rightarrow> char" where
  "toUpperCase_char c =
     (case map_of (zip ''abcdefghijklmnopqrstuvwxyz'' ''ABCDEFGHIJKLMNOPQRSTUVWXYZ'') c of
        Some u \<Rightarrow> u
      | None \<Rightarrow> c)"


definition toUpperCase :: "string \<Rightarrow> string" where
  "toUpperCase s = map toUpperCase_char s"


definition is_white_space :: "char \<Rightarrow> bool" where
  "is_white_space c = (c \<in> set [CHR 0x09, CHR 0x0A, CHR 0x0B, CHR 0x0C, CHR 0x0D, CHR '' ''])"

definition trim :: "string \<Rightarrow> string" where
  "trim s = rev (dropWhile is_white_space (rev (dropWhile is_white_space s)))"

subsection \<open>Courses and departments (courseController.js, Department model)\<close>

text \<open>
  \<^verbatim>\<open>deleteCourse\<close>: 404 when the course is not found, 400 when
  \<^verbatim>\<open>countDocuments({ course: course._id })\<close> on the modules is positive, else
  \<^verbatim>\<open>course.remove()\<close>. The Course schema has no pre-remove hook.
\<close>

definition deleteCourse :: "'n store \<Rightarrow> oid \<Rightarrow> (error + string) \<times> 'n store" where
  "deleteCourse st i =
     (case findById crs_id i (courses st) of
        None \<Rightarrow> (Inl NotFound, st)
      | Some course \<Rightarrow>
          let moduleCount = countDocuments (\<lambda>m. mod_course m = crs_id course) (modules st)
          in if moduleCount > 0 then (Inl HasDependents, st)
             else (Inr ''Course removed'',
                   st\<lparr>courses := deleteById crs_id (crs_id course) (courses st)\<rparr>))"

text \<open>
  \<^verbatim>\<open>departmentSchema.pre('remove')\<close>: delete every course of the department.
\<close>

definition departmentSchema_pre_remove :: "'n store \<Rightarrow> Department \<Rightarrow> 'n store" where
  "departmentSchema_pre_remove st this =
     st\<lparr>courses := deleteMany (\<lambda>c. crs_department c = dep_id this) (courses st)\<rparr>"

text \<open>
  \<^verbatim>\<open>deleteDepartment\<close>: 404 when the department is not found, 400 when
  \<^verbatim>\<open>countDocuments({ department: department._id })\<close> on the courses is positive,
  else \<^verbatim>\<open>department.remove()\<close>, which runs the pre-remove hook and then deletes
  the document.
\<close>

definition deleteDepartment :: "'n store \<Rightarrow> oid \<Rightarrow> (error + string) \<times> 'n store" where
  "deleteDepartment st i =
     (case findById dep_id i (departments st) of
        None \<Rightarrow> (Inl NotFound, st)
      | Some department \<Rightarrow>
          let courseCount =
                countDocuments (\<lambda>c. crs_department c = dep_id department) (courses st)
          in if courseCount > 0 then (Inl HasDependents, st)
             else (let st1 = departmentSchema_pre_remove st department
                   in (Inr ''Department removed'',
                       st1\<lparr>departments :=
                             deleteById dep_id (dep_id department) (departments st1)\<rparr>)))"

subsection \<open>Enrollment (portal controller) and the Enrollment model\<close>

text \<open>
  \<^verbatim>\<open>Enrollment.create\<close> inserts the document unless the unique index on
  \<^verbatim>\<open>{ user: 1, course: 1 }\<close> already holds a row for the pair, in which case the
  database throws the error of code 11000.
\<close>

definition Enrollment_create :: "'n store \<Rightarrow> Enrollment \<Rightarrow> error + 'n store" where
  "Enrollment_create st e =
     (if findOne (\<lambda>x. enr_user x = enr_user e \<and> enr_course x = enr_course e)
           (enrollments st) \<noteq> None
      then Inl E11000
      else Inr (st\<lparr>enrollments := enrollments st @ [e]\<rparr>))"

text \<open>
  \<^verbatim>\<open>enrollInCourse\<close>, for the user of the session: 404 when the course is not
  found; then \<^verbatim>\<open>Enrollment.create({ user, course, status: 'enrolled' })\<close>, where
  an error of code 11000 is caught and answered with \<^verbatim>\<open>'Already enrolled'\<close>
  (status 200) and any other error is thrown again; else 201 \<^verbatim>\<open>'Enrolled'\<close>.
  The generated \<^verbatim>\<open>_id\<close> and the default \<^verbatim>\<open>joinedAt\<close> (\<^verbatim>\<open>Date.now\<close>) of the
  new document are arguments.
\<close>

definition enrollInCourse ::
  "'n store \<Rightarrow> oid \<Rightarrow> oid \<Rightarrow> oid \<Rightarrow> nat \<Rightarrow> (error + string) \<times> 'n store" where
  "enrollInCourse st userId courseId new_id now =
     (case findById crs_id courseId (courses st) of
        None \<Rightarrow> (Inl NotFound, st)
      | Some course \<Rightarrow>
          (case Enrollment_create st
                  \<lparr>enr_id = new_id, enr_user = userId, enr_course = courseId,
                   enr_status = enrolled, enr_joinedAt = now\<rparr> of
             Inl err \<Rightarrow>
               if err = E11000 then (Inr ''Already enrolled'', st) else (Inl err, st)
           | Inr st' \<Rightarrow> (Inr ''Enrolled'', st')))"

text \<open>
  \<^verbatim>\<open>dropFromCourse\<close>: 404 when \<^verbatim>\<open>findOne({ user, course })\<close> finds no
  enrollment, else \<^verbatim>\<open>enrollment.deleteOne()\<close>.
\<close>

definition dropFromCourse :: "'n store \<Rightarrow> oid \<Rightarrow> oid \<Rightarrow> (error + string) \<times> 'n store" where
  "dropFromCourse st userId courseId =
     (case findOne (\<lambda>e. enr_user e = userId \<and> enr_course e = courseId) (enrollments st) of
        None \<Rightarrow> (Inl NotFound, st)
      | Some enrollment \<Rightarrow>
          (Inr ''Dropped'',
           st\<lparr>enrollments := deleteById enr_id (enr_id enrollment) (enrollments st)\<rparr>))"

text \<open>
  A request to the portal, and the store after a sequence of requests. No other
  controller writes the Enrollment collection.
\<close>

datatype portal_request =
    Enroll oid oid oid nat
  | Drop oid oid

fun portal_step :: "'n store \<Rightarrow> portal_request \<Rightarrow> 'n store" where
  "portal_step st (Enroll userId courseId new_id now) =
     snd (enrollInCourse st userId courseId new_id now)"
| "portal_step st (Drop userId courseId) = snd (dropFromCourse st userId courseId)"

definition portal_run :: "'n store \<Rightarrow> portal_request list \<Rightarrow> 'n store" where
  "portal_run st rs = foldl portal_step st rs"

subsection \<open>Students (student controller, Student model)\<close>

text \<open>
  \<^verbatim>\<open>deleteStudent\<close>: 404 when the student is not found, else
  \<^verbatim>\<open>student.deleteOne()\<close>. The Student schema has no hook.
\<close>

definition deleteStudent :: "'n store \<Rightarrow> oid \<Rightarrow> (error + string) \<times> 'n store" where
  "deleteStudent st i =
     (case findById stu_id i (students st) of
        None \<Rightarrow> (Inl NotFound, st)
      | Some student \<Rightarrow>
          (Inr ''Student removed'',
           st\<lparr>students := deleteById stu_id (stu_id student) (students st)\<rparr>))"














subsection \<open>Modules (Module model, moduleController.js)\<close>

text \<open>
  The two tests that the code makes on the assessment weights:
  \<^item> \<open>weights_off e c p\<close> is
    \<^verbatim>\<open>Math.abs(totalWeight - 100) > 0.01\<close>, where \<^verbatim>\<open>totalWeight\<close> is the sum
    that \<^verbatim>\<open>reduce\<close> computes from 0 over exam, coursework and practical;
  \<^item> \<open>weight_in_range w\<close> is the schema validators \<^verbatim>\<open>min: 0, max: 100\<close>.
  The functions of this subsection take them as a parameter; \<open>double_ops\<close> defines
  them on JavaScript numbers.
\<close>

record 'n number_ops =
  weights_off :: "'n \<Rightarrow> 'n \<Rightarrow> 'n \<Rightarrow> bool"
  weight_in_range :: "'n \<Rightarrow> bool"

text \<open>
  The setters of the schema path \<^verbatim>\<open>code\<close> (\<^verbatim>\<open>trim: true, uppercase: true\<close>).
\<close>

definition cast_code :: "string \<Rightarrow> string" where
  "cast_code s = toUpperCase (trim s)"

text \<open>
  The validators of the Module schema, which \<^verbatim>\<open>save()\<close> runs before the pre-save
  hooks: the required strings are not empty, credits are at least 1, the semester is
  from 1 to 12, the weights are in range.
\<close>

definition Module_validate :: "'n number_ops \<Rightarrow> 'n Module \<Rightarrow> bool" where
  "Module_validate ops m =
     (mod_name m \<noteq> [] \<and> mod_code m \<noteq> [] \<and> mod_course m \<noteq> [] \<and> mod_department m \<noteq> []
      \<and> 1 \<le> mod_credits m
      \<and> 1 \<le> mod_semester m \<and> mod_semester m \<le> 12
      \<and> weight_in_range ops (mod_exam m)
      \<and> weight_in_range ops (mod_coursework m)
      \<and> weight_in_range ops (mod_practical m))"

text \<open>
  \<^verbatim>\<open>moduleSchema.pre('save')\<close>: \<^verbatim>\<open>'Course not found'\<close>, then
  \<^verbatim>\<open>'Department not found'\<close>, then
  \<^verbatim>\<open>'Department does not match the course department'\<close>.
\<close>

definition moduleSchema_pre_save :: "'n store \<Rightarrow> 'n Module \<Rightarrow> error + unit" where
  "moduleSchema_pre_save st this =
     (case findById crs_id (mod_course this) (courses st) of
        None \<Rightarrow> Inl MissingReference
      | Some course \<Rightarrow>
          (case findById dep_id (mod_department this) (departments st) of
             None \<Rightarrow> Inl MissingReference
           | Some department \<Rightarrow>
               if crs_department course \<noteq> mod_department this then Inl ReferenceMismatch
               else Inr ()))"

text \<open>
  \<^verbatim>\<open>module.save()\<close> of a new document: validation, the pre-save hook, then the
  insert, which the unique index on \<^verbatim>\<open>code\<close> rejects with the error of code 11000
  when a module with the code is stored.
\<close>

definition Module_save :: "'n number_ops \<Rightarrow> 'n store \<Rightarrow> 'n Module \<Rightarrow> error + 'n store" where
  "Module_save ops st m =
     (if \<not> Module_validate ops m then Inl ValidationError
      else case moduleSchema_pre_save st m of
             Inl err \<Rightarrow> Inl err
           | Inr _ \<Rightarrow>
               if findOne (\<lambda>x. mod_code x = mod_code m) (modules st) \<noteq> None then Inl E11000
               else Inr (st\<lparr>modules := modules st @ [m]\<rparr>))"

text \<open>
  The body of a request to create a module. \<open>mb_credits\<close> and \<open>mb_semester\<close> are the
  results of \<^verbatim>\<open>parseInt\<close> (\<open>None\<close> for \<^verbatim>\<open>NaN\<close>), the three weights are the values
  of \<^verbatim>\<open>parseFloat(...) || 0\<close>, and \<open>mb_prerequisites\<close> is the array that the
  controller makes of the field.
\<close>

record 'n module_body =
  mb_name :: string
  mb_code :: string
  mb_course :: oid
  mb_department :: oid
  mb_credits :: "int option"
  mb_semester :: "int option"
  mb_isCore :: string
  mb_examWeight :: 'n
  mb_courseworkWeight :: 'n
  mb_practicalWeight :: 'n
  mb_prerequisites :: "oid list"

text \<open>
  \<^verbatim>\<open>createModule\<close>: 400 when \<^verbatim>\<open>Module.findOne({ code })\<close> finds a module, 400
  when the weights do not sum to 100, else \<^verbatim>\<open>new Module({...}).save()\<close>, whose
  errors are thrown. A \<^verbatim>\<open>NaN\<close> for credits or semester fails the cast to Number
  when the document is validated. \<open>new_id\<close> is the generated \<^verbatim>\<open>_id\<close>.
\<close>

definition createModule ::
  "'n number_ops \<Rightarrow> 'n store \<Rightarrow> 'n module_body \<Rightarrow> oid \<Rightarrow> (error + 'n Module) \<times> 'n store" where
  "createModule ops st body new_id =
     (if findOne (\<lambda>m. mod_code m = cast_code (mb_code body)) (modules st) \<noteq> None
      then (Inl (DuplicateKey ''Module with this code already exists''), st)
      else if weights_off ops (mb_examWeight body) (mb_courseworkWeight body)
                (mb_practicalWeight body)
      then (Inl ValidationError, st)
      else (case (mb_credits body, mb_semester body) of
              (Some credits, Some semester) \<Rightarrow>
                (let module =
                       \<lparr>mod_id = new_id,
                        mod_name = trim (mb_name body),
                        mod_code = cast_code (toUpperCase (mb_code body)),
                        mod_course = mb_course body,
                        mod_department = mb_department body,
                        mod_credits = credits,
                        mod_semester = semester,
                        mod_isCore = (mb_isCore body = ''on''),
                        mod_exam = mb_examWeight body,
                        mod_coursework = mb_courseworkWeight body,
                        mod_practical = mb_practicalWeight body,
                        mod_prerequisites = mb_prerequisites body\<rparr>
                 in case Module_save ops st module of
                      Inl err \<Rightarrow> (Inl err, st)
                    | Inr st' \<Rightarrow> (Inr module, st'))
            | _ \<Rightarrow> (Inl ValidationError, st)))"

text \<open>
  The document that \<^verbatim>\<open>createModule\<close> constructs (\<^verbatim>\<open>new Module({...})\<close>) from a
  body whose credits and semester are numbers.
\<close>

definition new_Module :: "'n module_body \<Rightarrow> oid \<Rightarrow> int \<Rightarrow> int \<Rightarrow> 'n Module" where
  "new_Module body new_id credits semester =
     \<lparr>mod_id = new_id,
      mod_name = trim (mb_name body),
      mod_code = cast_code (toUpperCase (mb_code body)),
      mod_course = mb_course body,
      mod_department = mb_department body,
      mod_credits = credits,
      mod_semester = semester,
      mod_isCore = (mb_isCore body = ''on''),
      mod_exam = mb_examWeight body,
      mod_coursework = mb_courseworkWeight body,
      mod_practical = mb_practicalWeight body,
      mod_prerequisites = mb_prerequisites body\<rparr>"

text \<open>
  \<^verbatim>\<open>module.save()\<close> of a stored module: validation, the pre-save hook, then the
  update of the document with the \<^verbatim>\<open>_id\<close>, which the unique index on \<^verbatim>\<open>code\<close>
  rejects when another module holds the code.
\<close>

definition Module_save_stored ::
  "'n number_ops \<Rightarrow> 'n store \<Rightarrow> 'n Module \<Rightarrow> error + 'n store" where
  "Module_save_stored ops st m =
     (if \<not> Module_validate ops m then Inl ValidationError
      else case moduleSchema_pre_save st m of
             Inl err \<Rightarrow> Inl err
           | Inr _ \<Rightarrow>
               if findOne (\<lambda>x. mod_id x \<noteq> mod_id m \<and> mod_code x = mod_code m) (modules st)
                    \<noteq> None
               then Inl E11000
               else Inr (st\<lparr>modules :=
                               map (\<lambda>x. if mod_id x = mod_id m then m else x) (modules st)\<rparr>))"

text \<open>
  The assignments of \<^verbatim>\<open>updateModule\<close> to the module found (\<^verbatim>\<open>module.name = name\<close>
  to \<^verbatim>\<open>module.prerequisites = ...\<close>).
\<close>

definition assign_module :: "'n Module \<Rightarrow> 'n module_body \<Rightarrow> int \<Rightarrow> int \<Rightarrow> 'n Module" where
  "assign_module stored body credits semester =
     stored\<lparr>mod_name := trim (mb_name body),
            mod_code := cast_code (toUpperCase (mb_code body)),
            mod_course := mb_course body,
            mod_department := mb_department body,
            mod_credits := credits,
            mod_semester := semester,
            mod_isCore := (mb_isCore body = ''on''),
            mod_exam := mb_examWeight body,
            mod_coursework := mb_courseworkWeight body,
            mod_practical := mb_practicalWeight body,
            mod_prerequisites := mb_prerequisites body\<rparr>"

text \<open>
  \<^verbatim>\<open>updateModule\<close>: 404 when the module is not found, 400 when another module has
  the code, 400 when the weights do not sum to 100, else the fields are assigned and
  the module is saved. The body is read as in \<^verbatim>\<open>createModule\<close>.
\<close>

definition updateModule ::
  "'n number_ops \<Rightarrow> 'n store \<Rightarrow> oid \<Rightarrow> 'n module_body \<Rightarrow> (error + 'n Module) \<times> 'n store" where
  "updateModule ops st i body =
     (case findById mod_id i (modules st) of
        None \<Rightarrow> (Inl NotFound, st)
      | Some stored \<Rightarrow>
          if findOne (\<lambda>m. mod_id m \<noteq> mod_id stored
                          \<and> mod_code m = cast_code (toUpperCase (mb_code body)))
               (modules st) \<noteq> None
          then (Inl (DuplicateKey ''Module with this code already exists''), st)
          else if weights_off ops (mb_examWeight body) (mb_courseworkWeight body)
                    (mb_practicalWeight body)
          then (Inl ValidationError, st)
          else (case (mb_credits body, mb_semester body) of
                  (Some credits, Some semester) \<Rightarrow>
                    (case Module_save_stored ops st
                            (assign_module stored body credits semester) of
                       Inl err \<Rightarrow> (Inl err, st)
                     | Inr st' \<Rightarrow> (Inr (assign_module stored body credits semester), st'))
                | _ \<Rightarrow> (Inl ValidationError, st)))"

subsection \<open>JavaScript numbers\<close>

text \<open>
  A JavaScript number is an IEEE 754 binary64 value: a finite double, an infinity or
  \<^verbatim>\<open>NaN\<close>. A finite double is given by the rational number that it denotes; the two
  zeros are one value (no operation below tells them apart).
\<close>

datatype jsnum = Finite rat | PosInf | NegInf | NaN

text \<open>The integer nearest to a rational; a tie goes to the even neighbour.\<close>

definition round_half_even :: "rat \<Rightarrow> int" where
  "round_half_even y =
     (let f = \<lfloor>y\<rfloor>; d = y - of_int f
      in if d < 1 / 2 then f else if 1 / 2 < d then f + 1 else if even f then f else f + 1)"

text \<open>
  The binary exponent of a rational \<open>x\<close> other than 0: the integer \<open>e\<close> with
  \<open>2\<^sup>e \<le> |x| < 2\<^sup>e\<^sup>+\<^sup>1\<close>, found from the bit lengths of numerator and denominator.
\<close>

definition double_exponent :: "rat \<Rightarrow> int" where
  "double_exponent x =
     (let e0 = bitlen (fst (quotient_of \<bar>x\<bar>)) - bitlen (snd (quotient_of \<bar>x\<bar>))
      in if 2 powi e0 \<le> \<bar>x\<bar> then e0 else e0 - 1)"

text \<open>
  Rounding to binary64, to nearest with ties to even: 53 significant bits, the least
  exponent -1022 (below it the spacing stays \<open>2\<^sup>-\<^sup>1\<^sup>0\<^sup>7\<^sup>4\<close>), and an infinity for a result of
  magnitude \<open>2\<^sup>1\<^sup>0\<^sup>2\<^sup>4\<close> or more. Such a result needs the exponent 1023 at least, which
  the definition tests first (\<open>round_double_overflow\<close> below states the rounding without
  this test).
\<close>

definition round_double :: "rat \<Rightarrow> jsnum" where
  "round_double x =
     (if x = 0 then Finite 0
      else let e = max (double_exponent x) (- 1022);
               q = 2 powi (e - 52);
               r = of_int (round_half_even (x / q)) * q
           in if e < 1023 then Finite r
              else if 2 powi 1024 \<le> \<bar>r\<bar> then (if 0 < x then PosInf else NegInf)
              else Finite r)"

text \<open>The operators \<^verbatim>\<open>+\<close>, unary and binary \<^verbatim>\<open>-\<close>, \<^verbatim>\<open>Math.abs\<close> and \<^verbatim>\<open>>\<close>.\<close>

fun js_add :: "jsnum \<Rightarrow> jsnum \<Rightarrow> jsnum" where
  "js_add (Finite a) (Finite b) = round_double (a + b)"
| "js_add NaN _ = NaN"
| "js_add _ NaN = NaN"
| "js_add PosInf NegInf = NaN"
| "js_add NegInf PosInf = NaN"
| "js_add PosInf _ = PosInf"
| "js_add _ PosInf = PosInf"
| "js_add NegInf _ = NegInf"
| "js_add _ NegInf = NegInf"

fun js_neg :: "jsnum \<Rightarrow> jsnum" where
  "js_neg (Finite a) = Finite (- a)"
| "js_neg PosInf = NegInf"
| "js_neg NegInf = PosInf"
| "js_neg NaN = NaN"

definition js_sub :: "jsnum \<Rightarrow> jsnum \<Rightarrow> jsnum" where
  "js_sub a b = js_add a (js_neg b)"

fun js_abs :: "jsnum \<Rightarrow> jsnum" where
  "js_abs (Finite a) = Finite \<bar>a\<bar>"
| "js_abs PosInf = PosInf"
| "js_abs NegInf = PosInf"
| "js_abs NaN = NaN"

fun js_gt :: "jsnum \<Rightarrow> jsnum \<Rightarrow> bool" where
  "js_gt (Finite a) (Finite b) = (b < a)"
| "js_gt NaN _ = False"
| "js_gt _ NaN = False"
| "js_gt PosInf PosInf = False"
| "js_gt PosInf _ = True"
| "js_gt _ PosInf = False"
| "js_gt NegInf _ = False"
| "js_gt _ NegInf = True"

text \<open>
  The two tests on the weights, on JavaScript numbers.
  \<^verbatim>\<open>Object.values(assessmentMethods).reduce((sum, weight) => sum + weight, 0)\<close> adds
  exam, coursework and practical to 0 in this order; \<^verbatim>\<open>100\<close> is a double, and
  \<^verbatim>\<open>0.01\<close> is the double nearest to 1/100. A weight passes \<^verbatim>\<open>min: 0, max: 100\<close>
  when it is finite and in the range.
\<close>

definition totalWeight :: "jsnum \<Rightarrow> jsnum \<Rightarrow> jsnum \<Rightarrow> jsnum" where
  "totalWeight exam coursework practical =
     js_add (js_add (js_add (Finite 0) exam) coursework) practical"

definition double_ops :: "jsnum number_ops" where
  "double_ops =
     \<lparr>weights_off = (\<lambda>exam coursework practical.
         js_gt (js_abs (js_sub (totalWeight exam coursework practical) (Finite 100)))
           (round_double (1 / 100))),
      weight_in_range = (\<lambda>w. case w of Finite x \<Rightarrow> 0 \<le> x \<and> x \<le> 100 | _ \<Rightarrow> False)\<rparr>"

subsection \<open>The structured module listing (moduleController.js)\<close>

text \<open>
  A JavaScript object used as a dictionary is the list of its properties in the order
  in which \<^verbatim>\<open>JSON.stringify\<close> and \<^verbatim>\<open>for ... in\<close> visit them. Reading a
  missing key gives \<^verbatim>\<open>undefined\<close> (\<open>None\<close>).

  The keys of \<^verbatim>\<open>structure\<close> and of \<^verbatim>\<open>courses\<close> are ObjectId strings (24
  hexadecimal digits, never an array index, never empty): a new key goes to the end,
  and writing an existing key keeps its place.
\<close>

definition obj_get :: "('k \<times> 'v) list \<Rightarrow> 'k \<Rightarrow> 'v option" where
  "obj_get obj k = map_of obj k"

fun obj_set :: "'k \<Rightarrow> 'v \<Rightarrow> ('k \<times> 'v) list \<Rightarrow> ('k \<times> 'v) list" where
  "obj_set k v [] = [(k, v)]"
| "obj_set k v ((a, b) # ps) = (if a = k then (k, v) # ps else (a, b) # obj_set k v ps)"

text \<open>
  The keys of \<^verbatim>\<open>semesters\<close> are numbers. A property whose key is an array index
  (an integer from 0, below \<open>2\<^sup>3\<^sup>2 - 1\<close>) is visited before every other property,
  the array indices in ascending order; the other keys follow in the order of their
  creation.
\<close>

definition is_array_index :: "int \<Rightarrow> bool" where
  "is_array_index k = (0 \<le> k \<and> k < 4294967295)"

fun obj_set_num :: "int \<Rightarrow> 'v \<Rightarrow> (int \<times> 'v) list \<Rightarrow> (int \<times> 'v) list" where
  "obj_set_num k v [] = [(k, v)]"
| "obj_set_num k v ((a, b) # ps) =
     (if a = k then (k, v) # ps
      else if is_array_index k \<and> (\<not> is_array_index a \<or> k < a) then (k, v) # (a, b) # ps
      else (a, b) # obj_set_num k v ps)"

text \<open>
  A module as \<^verbatim>\<open>Module.find({}).populate('course', ...).populate('department', ...)\<close>
  returns it: a reference that finds no document is populated with \<^verbatim>\<open>null\<close>.
\<close>

record 'n populated_module =
  pm_doc :: "'n Module"
  pm_course :: "Course option"
  pm_department :: "Department option"

definition populate :: "Department list \<Rightarrow> Course list \<Rightarrow> 'n Module \<Rightarrow> 'n populated_module" where
  "populate deps crs m =
     \<lparr>pm_doc = m,
      pm_course = findById crs_id (mod_course m) crs,
      pm_department = findById dep_id (mod_department m) deps\<rparr>"

record 'n course_bucket =
  cb_id :: oid
  cb_name :: string
  cb_code :: string
  cb_semesters :: "(int \<times> 'n populated_module list) list"

record 'n department_bucket =
  db_id :: oid
  db_name :: string
  db_code :: string
  db_courses :: "(oid \<times> 'n course_bucket) list"

type_synonym 'n structure_obj = "(oid \<times> 'n department_bucket) list"

text \<open>The body of \<^verbatim>\<open>departments.forEach\<close>.\<close>

definition add_department :: "'n structure_obj \<Rightarrow> Department \<Rightarrow> 'n structure_obj" where
  "add_department struc dep =
     obj_set (dep_id dep)
       \<lparr>db_id = dep_id dep, db_name = dep_name dep, db_code = dep_code dep, db_courses = []\<rparr>
       struc"

text \<open>
  The body of \<^verbatim>\<open>courses.forEach\<close>: the course is skipped when
  \<^verbatim>\<open>structure[depId]\<close> is missing.
\<close>

definition add_course :: "'n structure_obj \<Rightarrow> Course \<Rightarrow> 'n structure_obj" where
  "add_course struc course =
     (let depId = crs_department course
      in case obj_get struc depId of
           None \<Rightarrow> struc
         | Some bucket \<Rightarrow>
             obj_set depId
               (bucket\<lparr>db_courses :=
                  obj_set (crs_id course)
                    \<lparr>cb_id = crs_id course, cb_name = crs_name course,
                     cb_code = crs_code course, cb_semesters = []\<rparr>
                    (db_courses bucket)\<rparr>)
               struc)"

text \<open>
  \<^verbatim>\<open>depId\<close> of a module: the id of the populated department, else the department of
  the populated course, else \<^verbatim>\<open>null\<close>. \<^verbatim>\<open>courseId\<close>: the id of the populated
  course, else \<^verbatim>\<open>null\<close>.
\<close>

definition module_depId :: "'n populated_module \<Rightarrow> oid option" where
  "module_depId m =
     (case pm_department m of
        Some d \<Rightarrow> Some (dep_id d)
      | None \<Rightarrow> (case pm_course m of Some c \<Rightarrow> Some (crs_department c) | None \<Rightarrow> None))"

definition module_courseId :: "'n populated_module \<Rightarrow> oid option" where
  "module_courseId m = (case pm_course m of Some c \<Rightarrow> Some (crs_id c) | None \<Rightarrow> None)"

text \<open>
  \<^verbatim>\<open>semesters[sem].push(m)\<close>, after \<^verbatim>\<open>semesters[sem] = []\<close> when the key is
  missing. \<^verbatim>\<open>sem\<close> is \<^verbatim>\<open>Number(m.semester) || 0\<close>, the stored semester itself.
\<close>

definition push_semester ::
  "int \<Rightarrow> 'n populated_module \<Rightarrow> (int \<times> 'n populated_module list) list
     \<Rightarrow> (int \<times> 'n populated_module list) list" where
  "push_semester sem m semesters =
     (case obj_get semesters sem of
        None \<Rightarrow> obj_set_num sem [m] semesters
      | Some ms \<Rightarrow> obj_set_num sem (ms @ [m]) semesters)"

text \<open>
  The body of \<^verbatim>\<open>modules.forEach\<close>: the module is skipped when \<^verbatim>\<open>depId\<close> is
  \<^verbatim>\<open>null\<close> or \<^verbatim>\<open>structure[depId]\<close> is missing, and when \<^verbatim>\<open>courseId\<close> is
  \<^verbatim>\<open>null\<close> or \<^verbatim>\<open>structure[depId].courses[courseId]\<close> is missing.
\<close>

definition add_module :: "'n structure_obj \<Rightarrow> 'n populated_module \<Rightarrow> 'n structure_obj" where
  "add_module struc m =
     (case module_depId m of
        None \<Rightarrow> struc
      | Some depId \<Rightarrow>
          (case obj_get struc depId of
             None \<Rightarrow> struc
           | Some bucket \<Rightarrow>
               (case module_courseId m of
                  None \<Rightarrow> struc
                | Some courseId \<Rightarrow>
                    (case obj_get (db_courses bucket) courseId of
                       None \<Rightarrow> struc
                     | Some cb \<Rightarrow>
                         obj_set depId
                           (bucket\<lparr>db_courses :=
                              obj_set courseId
                                (cb\<lparr>cb_semesters :=
                                   push_semester (mod_semester (pm_doc m)) m (cb_semesters cb)\<rparr>)
                                (db_courses bucket)\<rparr>)
                           struc))))"

text \<open>
  \<^verbatim>\<open>getStructuredModules\<close>. Its arguments are the results of the three queries, in
  the order in which the database returns them (departments and courses sorted by
  name, modules by semester and name); the modules are populated from the same
  collections.
\<close>

definition getStructuredModules ::
  "Department list \<Rightarrow> Course list \<Rightarrow> 'n Module list \<Rightarrow> 'n structure_obj" where
  "getStructuredModules deps crs mods =
     foldl add_module
       (foldl add_course (foldl add_department [] deps) crs)
       (map (populate deps crs) mods)"

text \<open>The modules that a structure lists, bucket by bucket, in the order of the buckets.\<close>

definition course_modules :: "'n course_bucket \<Rightarrow> 'n populated_module list" where
  "course_modules cb = concat (map snd (cb_semesters cb))"

definition department_modules :: "'n department_bucket \<Rightarrow> 'n populated_module list" where
  "department_modules b = concat (map (\<lambda>p. course_modules (snd p)) (db_courses b))"

definition listed_modules :: "'n structure_obj \<Rightarrow> 'n populated_module list" where
  "listed_modules struc = concat (map (\<lambda>p. department_modules (snd p)) struc)"

subsection \<open>A small store\<close>

text \<open>
  One department, one course in it and one module of the course; the instances below
  are taken from it.
\<close>

definition ex_dep :: Department where
  "ex_dep = \<lparr>dep_id = ''d1'', dep_name = ''Computer Science'', dep_code = ''CS'',
     dep_isActive = True\<rparr>"

definition ex_course :: Course where
  "ex_course = \<lparr>crs_id = ''c1'', crs_name = ''Programming'', crs_code = ''CS101'',
     crs_department = ''d1'', crs_isActive = True\<rparr>"

definition ex_module :: "int Module" where
  "ex_module = \<lparr>mod_id = ''m1'', mod_name = ''Algorithms'', mod_code = ''M1'',
     mod_course = ''c1'', mod_department = ''d1'', mod_credits = 10, mod_semester = 1,
     mod_isCore = True, mod_exam = 60, mod_coursework = 40, mod_practical = 0,
     mod_prerequisites = []\<rparr>"

definition ex_store :: "int store" where
  "ex_store = \<lparr>departments = [ex_dep], courses = [ex_course], modules = [ex_module],
     students = [], users = [], enrollments = []\<rparr>"

definition ex_user :: User where
  "ex_user = \<lparr>usr_id = ''u1'', usr_name = ''Ada'', usr_email = ''ada@uni.example'',
     usr_password = ''hashed'', usr_role = ''student'', usr_isActive = True\<rparr>"

definition ex_student :: Student where
  "ex_student = \<lparr>stu_id = ''s1'', stu_name = ''Ada'', stu_email = ''ada@uni.example'',
     stu_rollNumber = ''R1'', stu_department = ''d1'', stu_course = ''c1'', stu_year = 1,
     stu_semester = 1, stu_enrollmentDate = 0, stu_status = active, stu_notes = None,
     stu_user = Some ''u1''\<rparr>"

definition ex_enrollment :: "oid \<Rightarrow> nat \<Rightarrow> Enrollment" where
  "ex_enrollment i t = \<lparr>enr_id = i, enr_user = ''u1'', enr_course = ''c1'',
     enr_status = enrolled, enr_joinedAt = t\<rparr>"

definition ex_store_students :: "int store" where
  "ex_store_students = ex_store\<lparr>students := [ex_student], users := [ex_user]\<rparr>"

text \<open>The catalogue of the example: department CS, course CS101, three modules.\<close>

definition cat_CS :: Department where
  "cat_CS = \<lparr>dep_id = ''CS'', dep_name = ''Computer Science'', dep_code = ''CS'',
     dep_isActive = True\<rparr>"

definition cat_CS101 :: Course where
  "cat_CS101 = \<lparr>crs_id = ''CS101'', crs_name = ''Programming'', crs_code = ''CS101'',
     crs_department = ''CS'', crs_isActive = True\<rparr>"

definition cat_module :: "oid \<Rightarrow> oid \<Rightarrow> int \<Rightarrow> int Module" where
  "cat_module i course sem = \<lparr>mod_id = i, mod_name = i, mod_code = i,
     mod_course = course, mod_department = ''CS'', mod_credits = 10, mod_semester = sem,
     mod_isCore = True, mod_exam = 60, mod_coursework = 40, mod_practical = 0,
     mod_prerequisites = []\<rparr>"

definition cat_M1 :: "int Module" where
  "cat_M1 = cat_module ''M1'' ''CS101'' 1"

definition cat_M2 :: "int Module" where
  "cat_M2 = cat_module ''M2'' ''CS101'' 1"

definition cat_Morphan :: "int Module" where
  "cat_Morphan = cat_module ''Morphan'' ''unknown'' 2"

text \<open>Number operations on integer weights, and a request to create a module.\<close>

definition ex_ops :: "int number_ops" where
  "ex_ops = \<lparr>weights_off = (\<lambda>e c p. e + c + p \<noteq> 100),
             weight_in_range = (\<lambda>w. 0 \<le> w \<and> w \<le> 100)\<rparr>"

definition ex_body :: "int module_body" where
  "ex_body = \<lparr>mb_name = ''Databases'', mb_code = ''cs101'', mb_course = ''c1'',
     mb_department = ''d1'', mb_credits = Some 10, mb_semester = Some 2, mb_isCore = ''on'',
     mb_examWeight = 60, mb_courseworkWeight = 40, mb_practicalWeight = 0,
     mb_prerequisites = []\<rparr>"

definition ex_dep2 :: Department where
  "ex_dep2 = \<lparr>dep_id = ''d2'', dep_name = ''Physics'', dep_code = ''PH'', dep_isActive = True\<rparr>"

definition ex_store2 :: "int store" where
  "ex_store2 = ex_store\<lparr>departments := [ex_dep, ex_dep2]\<rparr>"

definition ex_module_CS101 :: "int Module" where
  "ex_module_CS101 = ex_module\<lparr>mod_code := ''CS101''\<rparr>"







text \<open>
  A store for modules with JavaScript numbers, and a request whose weights are the
  doubles nearest to three given rationals (as \<^verbatim>\<open>parseFloat\<close> returns them).
\<close>

definition js_store :: "jsnum store" where
  "js_store = \<lparr>departments = [ex_dep], courses = [ex_course], modules = [],
     students = [], users = [], enrollments = []\<rparr>"

definition js_body :: "rat \<Rightarrow> rat \<Rightarrow> rat \<Rightarrow> jsnum module_body" where
  "js_body exam coursework practical =
     \<lparr>mb_name = ''Databases'', mb_code = ''db1'', mb_course = ''c1'',
      mb_department = ''d1'', mb_credits = Some 10, mb_semester = Some 2, mb_isCore = ''on'',
      mb_examWeight = round_double exam, mb_courseworkWeight = round_double coursework,
      mb_practicalWeight = round_double practical, mb_prerequisites = []\<rparr>"

definition js_module :: "rat \<Rightarrow> rat \<Rightarrow> rat \<Rightarrow> jsnum Module" where
  "js_module exam coursework practical =
     \<lparr>mod_id = ''m2'', mod_name = ''Databases'', mod_code = ''DB1'', mod_course = ''c1'',
      mod_department = ''d1'', mod_credits = 10, mod_semester = 2, mod_isCore = True,
      mod_exam = Finite exam, mod_coursework = Finite coursework,
      mod_practical = Finite practical, mod_prerequisites = []\<rparr>"

text \<open>
  Two requests: the weights 99.52, 0.48 and 0.01, and the weights 19.31, 40.58 and
  40.1.
\<close>

definition body_over :: "jsnum module_body" where
  "body_over = js_body (9952 / 100) (48 / 100) (1 / 100)"

definition body_under :: "jsnum module_body" where
  "body_under = js_body (1931 / 100) (4058 / 100) (401 / 10)"

text \<open>Two requests with whole weights: 60, 30, 0 and 60, 40, 0.\<close>

definition body_90 :: "jsnum module_body" where
  "body_90 = js_body 60 30 0"

definition body_100 :: "jsnum module_body" where
  "body_100 = js_body 60 40 0"

section \<open>Properties\<close>

subsection \<open>Queries\<close>

lemma findById_Some_id: "findById ident i xs = Some x \<Longrightarrow> ident x = i"
  by (auto simp: findById_def findOne_def find_Some_iff)

lemma findById_deleteById: "findById ident i (deleteById ident i xs) = None"
  by (simp add: findById_def findOne_def deleteById_def deleteMany_def find_None_iff)

lemma countDocuments_pos_iff: "countDocuments p xs > 0 \<longleftrightarrow> (\<exists>x \<in> set xs. p x)"
  by (auto simp: countDocuments_def filter_empty_conv)

lemma deleteMany_none: "\<forall>x \<in> set xs. \<not> p x \<Longrightarrow> deleteMany p xs = xs"
  by (simp add: deleteMany_def)

lemma findById_mem_ex: "x \<in> set xs \<Longrightarrow> \<exists>y. findById ident (ident x) xs = Some y"
  by (cases "findById ident (ident x) xs") (auto simp: findById_def findOne_def find_None_iff)

lemma not_mem_deleteById: "x \<notin> set (deleteById ident (ident x) xs)"
  by (simp add: deleteById_def deleteMany_def)

subsection \<open>Deleting a course\<close>

text \<open>
  C4. For a course \<open>c\<close> of the store, \<^verbatim>\<open>deleteCourse\<close> replies
  \<open>HasDependents\<close> exactly when some module references \<open>c\<close>, and then leaves the
  store as it was; when no module references \<open>c\<close>, it replies with success and the
  store no longer holds \<open>c\<close> (nor any course with its id).
\<close>

theorem deleteCourse_guard:
  assumes "c \<in> set (courses st)"
  shows "(fst (deleteCourse st (crs_id c)) = Inl HasDependents
            \<longleftrightarrow> (\<exists>m \<in> set (modules st). mod_course m = crs_id c))
       \<and> ((\<exists>m \<in> set (modules st). mod_course m = crs_id c)
            \<longrightarrow> snd (deleteCourse st (crs_id c)) = st)
       \<and> ((\<forall>m \<in> set (modules st). mod_course m \<noteq> crs_id c)
            \<longrightarrow> deleteCourse st (crs_id c)
                  = (Inr ''Course removed'',
                     st\<lparr>courses := deleteById crs_id (crs_id c) (courses st)\<rparr>)
              \<and> c \<notin> set (courses (snd (deleteCourse st (crs_id c))))
              \<and> findById crs_id (crs_id c) (courses (snd (deleteCourse st (crs_id c)))) = None)"
proof -
  obtain c' where f: "findById crs_id (crs_id c) (courses st) = Some c'"
    using findById_mem_ex [OF assms] by blast
  have i: "crs_id c' = crs_id c" using findById_Some_id [OF f] .
  have n: "c \<notin> set (deleteById crs_id (crs_id c) (courses st))"
    by (rule not_mem_deleteById)
  show ?thesis
    by (auto simp: deleteCourse_def f i Let_def countDocuments_pos_iff findById_deleteById n)
qed

theorem deleteCourse_guard_witness:
  "ex_course \<in> set (courses ex_store)
   \<and> fst (deleteCourse ex_store ''c1'') = Inl HasDependents
   \<and> snd (deleteCourse ex_store ''c1'') = ex_store
   \<and> deleteCourse (ex_store\<lparr>modules := []\<rparr>) ''c1''
       = (Inr ''Course removed'', ex_store\<lparr>modules := [], courses := []\<rparr>)"
proof -
  have a: "ex_course \<in> set (courses ex_store)"
    by (simp add: ex_store_def)
  have b: "ex_course \<in> set (courses (ex_store\<lparr>modules := []\<rparr>))"
    by (simp add: ex_store_def)
  have i: "crs_id ex_course = ''c1''" by (simp add: ex_course_def)
  have m: "\<exists>m \<in> set (modules ex_store). mod_course m = crs_id ex_course"
    by (simp add: ex_store_def ex_module_def ex_course_def)
  have d: "deleteById crs_id ''c1'' [ex_course] = []"
    by (simp add: deleteById_def deleteMany_def ex_course_def)
  from deleteCourse_guard [OF a] m
  have 1: "fst (deleteCourse ex_store ''c1'') = Inl HasDependents
     \<and> snd (deleteCourse ex_store ''c1'') = ex_store"
    unfolding i by blast
  from deleteCourse_guard [OF b]
  have 2: "deleteCourse (ex_store\<lparr>modules := []\<rparr>) ''c1''
       = (Inr ''Course removed'', ex_store\<lparr>modules := [], courses := []\<rparr>)"
    unfolding i by (simp add: ex_store_def d)
  from a 1 2 show ?thesis by blast
qed

subsection \<open>Deleting a department\<close>

text \<open>
  The pre-remove hook by itself leaves no course of the department, whatever modules
  the courses have.
\<close>

lemma departmentSchema_pre_remove_cascades:
  "c \<in> set (courses (departmentSchema_pre_remove st d)) \<Longrightarrow> crs_department c \<noteq> dep_id d"
  by (simp add: departmentSchema_pre_remove_def deleteMany_def)

text \<open>
  C1 as stated (the deletion succeeds whatever courses the department has, and removes
  them) does not hold: with one course in the department, \<^verbatim>\<open>deleteDepartment\<close>
  replies \<open>HasDependents\<close>, and both the course and the department stay in the store.
\<close>

theorem deleteDepartment_blocked_counterexample:
  "ex_dep \<in> set (departments ex_store)
   \<and> crs_department ex_course = dep_id ex_dep
   \<and> fst (deleteDepartment ex_store (dep_id ex_dep)) = Inl HasDependents
   \<and> ex_course \<in> set (courses (snd (deleteDepartment ex_store (dep_id ex_dep))))
   \<and> ex_dep \<in> set (departments (snd (deleteDepartment ex_store (dep_id ex_dep))))"
  by (simp add: ex_store_def ex_dep_def ex_course_def deleteDepartment_def findById_def
      findOne_def countDocuments_def)

text \<open>
  C1, amended. For a department \<open>d\<close> of the store, \<^verbatim>\<open>deleteDepartment\<close> replies
  \<open>HasDependents\<close> and leaves the store as it was when some course references \<open>d\<close>;
  when no course references \<open>d\<close> it succeeds, removes \<open>d\<close> and changes nothing else
  (the cascade of the pre-remove hook finds no course to delete).
\<close>

theorem deleteDepartment_guarded:
  assumes "d \<in> set (departments st)"
  shows "((\<exists>c \<in> set (courses st). crs_department c = dep_id d)
            \<longrightarrow> deleteDepartment st (dep_id d) = (Inl HasDependents, st))
       \<and> ((\<forall>c \<in> set (courses st). crs_department c \<noteq> dep_id d)
            \<longrightarrow> deleteDepartment st (dep_id d)
                  = (Inr ''Department removed'',
                     st\<lparr>departments := deleteById dep_id (dep_id d) (departments st)\<rparr>)
              \<and> d \<notin> set (departments (snd (deleteDepartment st (dep_id d)))))"
proof -
  obtain d' where f: "findById dep_id (dep_id d) (departments st) = Some d'"
    using findById_mem_ex [OF assms] by blast
  have i: "dep_id d' = dep_id d" using findById_Some_id [OF f] .
  have n: "d \<notin> set (deleteById dep_id (dep_id d) (departments st))"
    by (rule not_mem_deleteById)
  have k: "\<forall>c \<in> set (courses st). crs_department c \<noteq> dep_id d
     \<Longrightarrow> departmentSchema_pre_remove st d' = st"
    by (simp add: departmentSchema_pre_remove_def i deleteMany_none)
  show ?thesis
    by (auto simp: deleteDepartment_def f i Let_def countDocuments_pos_iff k n)
qed

theorem deleteDepartment_guarded_witness:
  "ex_dep \<in> set (departments ex_store)
   \<and> deleteDepartment ex_store ''d1'' = (Inl HasDependents, ex_store)
   \<and> deleteDepartment (ex_store\<lparr>courses := []\<rparr>) ''d1''
       = (Inr ''Department removed'', ex_store\<lparr>courses := [], departments := []\<rparr>)"
proof -
  have a: "ex_dep \<in> set (departments ex_store)"
    by (simp add: ex_store_def)
  have b: "ex_dep \<in> set (departments (ex_store\<lparr>courses := []\<rparr>))"
    by (simp add: ex_store_def)
  have i: "dep_id ex_dep = ''d1''" by (simp add: ex_dep_def)
  have m: "\<exists>c \<in> set (courses ex_store). crs_department c = dep_id ex_dep"
    by (simp add: ex_store_def ex_dep_def ex_course_def)
  have d: "deleteById dep_id ''d1'' [ex_dep] = []"
    by (simp add: deleteById_def deleteMany_def ex_dep_def)
  from deleteDepartment_guarded [OF a] m
  have 1: "deleteDepartment ex_store ''d1'' = (Inl HasDependents, ex_store)"
    unfolding i by blast
  from deleteDepartment_guarded [OF b]
  have 2: "deleteDepartment (ex_store\<lparr>courses := []\<rparr>) ''d1''
       = (Inr ''Department removed'', ex_store\<lparr>courses := [], departments := []\<rparr>)"
    unfolding i by (simp add: ex_store_def d)
  from a 1 2 show ?thesis by blast
qed

subsection \<open>Enrolling twice\<close>

lemma enroll_existing:
  assumes "findOne (\<lambda>x. enr_user x = u \<and> enr_course x = c) (enrollments st) \<noteq> None"
    and "findById crs_id c (courses st) = Some k"
  shows "enrollInCourse st u c i t = (Inr ''Already enrolled'', st)"
  using assms by (simp add: enrollInCourse_def Enrollment_create_def)

lemma enroll_new:
  assumes "findOne (\<lambda>x. enr_user x = u \<and> enr_course x = c) (enrollments st) = None"
    and "findById crs_id c (courses st) = Some k"
  shows "enrollInCourse st u c i t =
     (Inr ''Enrolled'',
      st\<lparr>enrollments := enrollments st @
         [\<lparr>enr_id = i, enr_user = u, enr_course = c, enr_status = enrolled,
           enr_joinedAt = t\<rparr>]\<rparr>)"
  using assms by (simp add: enrollInCourse_def Enrollment_create_def)

lemma findOne_None_count: "findOne p xs = None \<longleftrightarrow> countDocuments p xs = 0"
  by (auto simp: findOne_def countDocuments_def find_None_iff filter_empty_conv)

text \<open>
  C2. For a user \<open>u\<close> and a course \<open>c\<close> of the store, where the unique index on
  (user, course) holds for the pair (at most one row), two calls of
  \<^verbatim>\<open>enrollInCourse\<close> in a row leave exactly one row for the pair: the second call
  replies \<^verbatim>\<open>'Already enrolled'\<close> (a success, not an error) and leaves the store
  of the first call as it is.
\<close>

theorem enroll_twice:
  assumes crs: "c \<in> set (courses st)"
    and idx: "countDocuments (\<lambda>e. enr_user e = u \<and> enr_course e = crs_id c) (enrollments st) \<le> 1"
  shows "fst (enrollInCourse (snd (enrollInCourse st u (crs_id c) i1 t1)) u (crs_id c) i2 t2)
           = Inr ''Already enrolled''
       \<and> snd (enrollInCourse (snd (enrollInCourse st u (crs_id c) i1 t1)) u (crs_id c) i2 t2)
           = snd (enrollInCourse st u (crs_id c) i1 t1)
       \<and> countDocuments (\<lambda>e. enr_user e = u \<and> enr_course e = crs_id c)
           (enrollments
             (snd (enrollInCourse (snd (enrollInCourse st u (crs_id c) i1 t1)) u (crs_id c) i2 t2)))
           = 1"
proof -
  let ?p = "\<lambda>e. enr_user e = u \<and> enr_course e = crs_id c"
  let ?st1 = "snd (enrollInCourse st u (crs_id c) i1 t1)"
  obtain k where k: "findById crs_id (crs_id c) (courses st) = Some k"
    using findById_mem_ex [OF crs] by blast
  have first: "courses ?st1 = courses st \<and> countDocuments ?p (enrollments ?st1) = 1"
  proof (cases "findOne ?p (enrollments st) = None")
    case True
    then have "countDocuments ?p (enrollments st) = 0"
      by (simp add: findOne_None_count)
    then show ?thesis
      by (simp add: enroll_new [OF True k] countDocuments_def)
  next
    case False
    then have "countDocuments ?p (enrollments st) \<noteq> 0"
      by (simp add: findOne_None_count)
    with idx have "countDocuments ?p (enrollments st) = 1" by simp
    then show ?thesis
      by (simp add: enroll_existing [OF False k])
  qed
  then have k1: "findById crs_id (crs_id c) (courses ?st1) = Some k"
    using k by simp
  from first have "findOne ?p (enrollments ?st1) \<noteq> None"
    by (simp add: findOne_None_count)
  from enroll_existing [OF this k1] first show ?thesis
    by simp
qed

theorem enroll_twice_witness:
  "ex_course \<in> set (courses ex_store)
   \<and> countDocuments (\<lambda>e. enr_user e = ''u1'' \<and> enr_course e = ''c1'') (enrollments ex_store) \<le> 1
   \<and> enrollInCourse ex_store ''u1'' ''c1'' ''e1'' 5
       = (Inr ''Enrolled'', ex_store\<lparr>enrollments := [ex_enrollment ''e1'' 5]\<rparr>)
   \<and> enrollInCourse (ex_store\<lparr>enrollments := [ex_enrollment ''e1'' 5]\<rparr>) ''u1'' ''c1'' ''e2'' 6
       = (Inr ''Already enrolled'', ex_store\<lparr>enrollments := [ex_enrollment ''e1'' 5]\<rparr>)"
proof -
  have a: "ex_course \<in> set (courses ex_store)"
    by (simp add: ex_store_def)
  have i: "crs_id ex_course = ''c1''" by (simp add: ex_course_def)
  have b: "countDocuments (\<lambda>e. enr_user e = ''u1'' \<and> enr_course e = crs_id ex_course)
             (enrollments ex_store) \<le> 1"
    by (simp add: ex_store_def countDocuments_def)
  have 1: "enrollInCourse ex_store ''u1'' ''c1'' ''e1'' 5
       = (Inr ''Enrolled'', ex_store\<lparr>enrollments := [ex_enrollment ''e1'' 5]\<rparr>)"
    by (simp add: enrollInCourse_def Enrollment_create_def findById_def findOne_def
        ex_store_def ex_course_def ex_enrollment_def)
  from enroll_twice [OF a b, of "''e1''" 5 "''e2''" 6]
  have 2: "enrollInCourse (ex_store\<lparr>enrollments := [ex_enrollment ''e1'' 5]\<rparr>) ''u1'' ''c1'' ''e2'' 6
       = (Inr ''Already enrolled'', ex_store\<lparr>enrollments := [ex_enrollment ''e1'' 5]\<rparr>)"
    unfolding i 1 by (simp add: prod_eq_iff)
  from a b 1 2 show ?thesis unfolding i by blast
qed

subsection \<open>The status of an enrollment\<close>

lemma all_enrolled_step:
  assumes "\<forall>e \<in> set (enrollments st). enr_status e = enrolled"
  shows "\<forall>e \<in> set (enrollments (portal_step st r)). enr_status e = enrolled"
proof (cases r)
  case (Enroll u c i t)
  with assms show ?thesis
    by (auto simp: enrollInCourse_def Enrollment_create_def split: option.splits)
next
  case (Drop u c)
  with assms show ?thesis
    by (auto simp: dropFromCourse_def deleteById_def deleteMany_def split: option.splits)
qed

lemma all_enrolled_run:
  "\<forall>e \<in> set (enrollments st). enr_status e = enrolled
   \<Longrightarrow> \<forall>e \<in> set (enrollments (foldl portal_step st rs)). enr_status e = enrolled"
proof (induction rs arbitrary: st)
  case Nil
  then show ?case by simp
next
  case (Cons r rs)
  from Cons.IH [OF all_enrolled_step [OF Cons.prems]] show ?case by simp
qed

text \<open>
  C8. From a store with no enrollment, every sequence of enroll and drop requests
  leads to a store in which every enrollment has the status \<open>enrolled\<close>. A drop
  writes no row: the rows after it are rows from before, and the row it found is gone.
\<close>

theorem dropped_never_persisted:
  assumes "enrollments st = []"
  shows "(\<forall>e \<in> set (enrollments (portal_run st rs)). enr_status e = enrolled)
       \<and> set (enrollments (snd (dropFromCourse s u c))) \<subseteq> set (enrollments s)
       \<and> (\<forall>x. findOne (\<lambda>e. enr_user e = u \<and> enr_course e = c) (enrollments s) = Some x
             \<longrightarrow> x \<notin> set (enrollments (snd (dropFromCourse s u c))))"
proof -
  have 1: "\<forall>e \<in> set (enrollments (portal_run st rs)). enr_status e = enrolled"
    unfolding portal_run_def by (rule all_enrolled_run) (simp add: assms)
  have 2: "set (enrollments (snd (dropFromCourse s u c))) \<subseteq> set (enrollments s)"
    by (auto simp: dropFromCourse_def deleteById_def deleteMany_def split: option.splits)
  have 3: "\<forall>x. findOne (\<lambda>e. enr_user e = u \<and> enr_course e = c) (enrollments s) = Some x
             \<longrightarrow> x \<notin> set (enrollments (snd (dropFromCourse s u c)))"
    by (auto simp: dropFromCourse_def not_mem_deleteById)
  from 1 2 3 show ?thesis by blast
qed

theorem dropped_never_persisted_witness:
  "enrollments ex_store = []
   \<and> enrollments (portal_run ex_store
        [Enroll ''u1'' ''c1'' ''e1'' 5, Drop ''u1'' ''c1'', Enroll ''u1'' ''c1'' ''e2'' 6])
       = [ex_enrollment ''e2'' 6]
   \<and> enr_status (ex_enrollment ''e2'' 6) = enrolled"
proof -
  let ?rs = "[Enroll ''u1'' ''c1'' ''e1'' 5, Drop ''u1'' ''c1'', Enroll ''u1'' ''c1'' ''e2'' 6]"
  have a: "enrollments ex_store = ([] :: Enrollment list)"
    by (simp add: ex_store_def)
  have r: "enrollments (portal_run ex_store ?rs) = [ex_enrollment ''e2'' 6]"
    by (simp add: portal_run_def enrollInCourse_def dropFromCourse_def Enrollment_create_def
        findById_def findOne_def deleteById_def deleteMany_def
        ex_store_def ex_course_def ex_enrollment_def)
  from dropped_never_persisted [OF a, of ?rs]
  have "\<forall>e \<in> set (enrollments (portal_run ex_store ?rs)). enr_status e = enrolled"
    by blast
  then have "enr_status (ex_enrollment ''e2'' 6) = enrolled"
    unfolding r by simp
  with a r show ?thesis by blast
qed

subsection \<open>Deleting a student\<close>

text \<open>
  C10. Deleting a student \<open>s\<close> that is linked to a user account removes \<open>s\<close> from
  the students and changes nothing else: the users collection is the same, and the
  linked account is still found, unchanged.
\<close>

theorem deleteStudent_keeps_user:
  assumes "s \<in> set (students st)" and "stu_user s = Some uid"
    and "findById usr_id uid (users st) = Some usr"
  shows "deleteStudent st (stu_id s)
           = (Inr ''Student removed'',
              st\<lparr>students := deleteById stu_id (stu_id s) (students st)\<rparr>)
       \<and> s \<notin> set (students (snd (deleteStudent st (stu_id s))))
       \<and> users (snd (deleteStudent st (stu_id s))) = users st
       \<and> findById usr_id uid (users (snd (deleteStudent st (stu_id s)))) = Some usr"
proof -
  obtain s' where f: "findById stu_id (stu_id s) (students st) = Some s'"
    using findById_mem_ex [OF assms(1)] by blast
  have i: "stu_id s' = stu_id s" using findById_Some_id [OF f] .
  show ?thesis
    by (simp add: deleteStudent_def f i not_mem_deleteById assms(3))
qed

theorem deleteStudent_keeps_user_witness:
  "ex_student \<in> set (students ex_store_students)
   \<and> stu_user ex_student = Some ''u1''
   \<and> findById usr_id ''u1'' (users ex_store_students) = Some ex_user
   \<and> deleteStudent ex_store_students ''s1'' = (Inr ''Student removed'', ex_store\<lparr>users := [ex_user]\<rparr>)"
proof -
  have a: "ex_student \<in> set (students ex_store_students)"
    by (simp add: ex_store_students_def)
  have b: "stu_user ex_student = Some ''u1''"
    by (simp add: ex_student_def)
  have c: "findById usr_id ''u1'' (users ex_store_students) = Some ex_user"
    by (simp add: ex_store_students_def findById_def findOne_def ex_user_def)
  have i: "stu_id ex_student = ''s1''" by (simp add: ex_student_def)
  have d: "deleteById stu_id ''s1'' [ex_student] = []"
    by (simp add: deleteById_def deleteMany_def ex_student_def)
  from deleteStudent_keeps_user [OF a b c]
  have "deleteStudent ex_store_students ''s1''
          = (Inr ''Student removed'', ex_store\<lparr>users := [ex_user]\<rparr>)"
    unfolding i by (simp add: ex_store_students_def ex_store_def d)
  with a b c show ?thesis by blast
qed

subsection \<open>The structured module listing\<close>

lemma set_obj_set: "set (obj_set k v ps) \<subseteq> insert (k, v) (set ps)"
  by (induction ps) (auto split: if_splits)

lemma set_obj_set_num: "set (obj_set_num k v ps) \<subseteq> insert (k, v) (set ps)"
  by (induction ps) (auto split: if_splits)

lemma set_concat_obj_set:
  "set (concat (map (\<lambda>p. f (snd p)) (obj_set k v ps)))
     \<subseteq> set (f v) \<union> set (concat (map (\<lambda>p. f (snd p)) ps))"
  using set_obj_set [of k v ps] by fastforce

lemma set_concat_obj_set_num:
  "set (concat (map snd (obj_set_num k v ps))) \<subseteq> set v \<union> set (concat (map snd ps))"
  using set_obj_set_num [of k v ps] by fastforce

lemma set_concat_obj_get:
  "obj_get ps k = Some v \<Longrightarrow> set (f v) \<subseteq> set (concat (map (\<lambda>p. f (snd p)) ps))"
  unfolding obj_get_def by (auto dest!: map_of_SomeD)

lemma set_concat_obj_get_num:
  "obj_get ps k = Some v \<Longrightarrow> set v \<subseteq> set (concat (map snd ps))"
  unfolding obj_get_def by (auto dest!: map_of_SomeD)

lemma listed_add_department:
  "set (listed_modules (add_department struc dep)) \<subseteq> set (listed_modules struc)"
proof -
  let ?b = "\<lparr>db_id = dep_id dep, db_name = dep_name dep, db_code = dep_code dep,
             db_courses = ([] :: (oid \<times> 'a course_bucket) list)\<rparr>"
  have "department_modules ?b = []"
    by (simp add: department_modules_def)
  with set_concat_obj_set [of department_modules "dep_id dep" ?b struc]
  show ?thesis
    by (simp add: listed_modules_def add_department_def)
qed

lemma listed_add_course:
  "set (listed_modules (add_course struc course)) \<subseteq> set (listed_modules struc)"
proof (cases "obj_get struc (crs_department course)")
  case None
  then show ?thesis by (simp add: add_course_def)
next
  case (Some bucket)
  let ?cb = "\<lparr>cb_id = crs_id course, cb_name = crs_name course, cb_code = crs_code course,
              cb_semesters = ([] :: (int \<times> 'a populated_module list) list)\<rparr>"
  let ?b = "bucket\<lparr>db_courses := obj_set (crs_id course) ?cb (db_courses bucket)\<rparr>"
  have e: "course_modules ?cb = []"
    by (simp add: course_modules_def)
  have "set (department_modules ?b) \<subseteq> set (department_modules bucket)"
    using set_concat_obj_set [of course_modules "crs_id course" ?cb "db_courses bucket"]
    by (simp add: department_modules_def e)
  moreover have "set (department_modules bucket) \<subseteq> set (listed_modules struc)"
    unfolding listed_modules_def by (rule set_concat_obj_get [OF Some])
  moreover have "set (listed_modules (add_course struc course))
      \<subseteq> set (department_modules ?b) \<union> set (listed_modules struc)"
    using set_concat_obj_set [of department_modules "crs_department course" ?b struc]
    by (simp add: add_course_def Some listed_modules_def)
  ultimately show ?thesis by blast
qed

lemma listed_push_semester:
  "set (concat (map snd (push_semester sem m semesters)))
     \<subseteq> insert m (set (concat (map snd semesters)))"
proof (cases "obj_get semesters sem")
  case None
  with set_concat_obj_set_num [of sem "[m]" semesters] show ?thesis
    by (simp add: push_semester_def)
next
  case (Some ms)
  with set_concat_obj_set_num [of sem "ms @ [m]" semesters]
    set_concat_obj_get_num [OF Some]
  show ?thesis
    by (auto simp: push_semester_def)
qed

lemma listed_add_module:
  "set (listed_modules (add_module struc m)) \<subseteq> insert m (set (listed_modules struc))"
proof (cases "add_module struc m = struc")
  case True
  then show ?thesis by auto
next
  case False
  then obtain depId bucket courseId cb where
    d: "module_depId m = Some depId" and b: "obj_get struc depId = Some bucket" and
    c: "module_courseId m = Some courseId" and
    k: "obj_get (db_courses bucket) courseId = Some cb"
    by (auto simp: add_module_def split: option.splits)
  let ?cb = "cb\<lparr>cb_semesters := push_semester (mod_semester (pm_doc m)) m (cb_semesters cb)\<rparr>"
  let ?b = "bucket\<lparr>db_courses := obj_set courseId ?cb (db_courses bucket)\<rparr>"
  have 1: "set (course_modules ?cb) \<subseteq> insert m (set (course_modules cb))"
    using listed_push_semester [of "mod_semester (pm_doc m)" m "cb_semesters cb"]
    by (simp add: course_modules_def)
  have 2: "set (course_modules cb) \<subseteq> set (department_modules bucket)"
    unfolding department_modules_def by (rule set_concat_obj_get [OF k])
  have 3: "set (department_modules ?b)
      \<subseteq> set (course_modules ?cb) \<union> set (department_modules bucket)"
    using set_concat_obj_set [of course_modules courseId ?cb "db_courses bucket"]
    by (simp add: department_modules_def)
  have 4: "set (department_modules bucket) \<subseteq> set (listed_modules struc)"
    unfolding listed_modules_def by (rule set_concat_obj_get [OF b])
  have 5: "set (listed_modules (add_module struc m))
      \<subseteq> set (department_modules ?b) \<union> set (listed_modules struc)"
    using set_concat_obj_set [of department_modules depId ?b struc]
    by (simp add: add_module_def d b c k listed_modules_def)
  from 1 2 3 4 5 show ?thesis by blast
qed

lemma add_module_no_course: "pm_course m = None \<Longrightarrow> add_module struc m = struc"
  by (simp add: add_module_def module_courseId_def split: option.splits)

lemma listed_foldl_add_module:
  "set (listed_modules (foldl add_module struc ms))
     \<subseteq> set (listed_modules struc) \<union> {m \<in> set ms. pm_course m \<noteq> None}"
proof (induction ms arbitrary: struc)
  case Nil
  then show ?case by simp
next
  case (Cons m ms)
  show ?case
  proof (cases "pm_course m = None")
    case True
    with Cons.IH [of struc] show ?thesis
      by (auto simp: add_module_no_course)
  next
    case False
    with Cons.IH [of "add_module struc m"] listed_add_module [of struc m]
    show ?thesis by auto
  qed
qed

lemma listed_foldl_add_course:
  "set (listed_modules (foldl add_course struc cs)) \<subseteq> set (listed_modules struc)"
proof (induction cs arbitrary: struc)
  case Nil
  then show ?case by simp
next
  case (Cons c cs)
  from Cons.IH [of "add_course struc c"] listed_add_course [of struc c]
  show ?case by auto
qed

lemma listed_foldl_add_department:
  "set (listed_modules (foldl add_department struc ds)) \<subseteq> set (listed_modules struc)"
proof (induction ds arbitrary: struc)
  case Nil
  then show ?case by simp
next
  case (Cons d ds)
  from Cons.IH [of "add_department struc d"] listed_add_department [of struc d]
  show ?case by auto
qed

lemma listed_getStructuredModules:
  "set (listed_modules (getStructuredModules deps crs mods))
     \<subseteq> {m \<in> populate deps crs ` set mods. pm_course m \<noteq> None}"
proof -
  have "set (listed_modules (foldl add_department ([] :: 'a structure_obj) deps)) \<subseteq> {}"
    using listed_foldl_add_department [of "[]" deps]
    by (simp add: listed_modules_def)
  with listed_foldl_add_course [of "foldl add_department [] deps" crs]
  have "set (listed_modules (foldl add_course (foldl add_department ([] :: 'a structure_obj) deps) crs)) \<subseteq> {}"
    by (rule subset_trans)
  with listed_foldl_add_module
         [of "foldl add_course (foldl add_department [] deps) crs" "map (populate deps crs) mods"]
  show ?thesis
    by (auto simp: getStructuredModules_def)
qed

lemma structured_example:
  "getStructuredModules [cat_CS] [cat_CS101] [cat_M1, cat_M2, cat_Morphan]
     = [(''CS'', \<lparr>db_id = ''CS'', db_name = ''Computer Science'', db_code = ''CS'',
          db_courses =
            [(''CS101'', \<lparr>cb_id = ''CS101'', cb_name = ''Programming'', cb_code = ''CS101'',
               cb_semesters =
                 [(1, [populate [cat_CS] [cat_CS101] cat_M1,
                       populate [cat_CS] [cat_CS101] cat_M2])]\<rparr>)]\<rparr>)]"
  by (simp add: getStructuredModules_def add_module_def add_course_def add_department_def
      populate_def module_depId_def module_courseId_def push_semester_def obj_get_def
      findById_def findOne_def cat_CS_def cat_CS101_def cat_M1_def cat_M2_def cat_Morphan_def
      cat_module_def Let_def)

text \<open>
  C5. For the departments [CS], the courses [CS101 in CS] and the modules [M1, M2,
  Morphan], where M1 and M2 belong to CS101 in semester 1 and the course of Morphan is
  unknown, the structure maps CS to CS101 to semester 1 to [M1, M2], in this order, and
  lists no other module. In general: a course whose department has no bucket leaves the
  structure as it is; so does a module whose department id is missing or has no bucket,
  or whose course id is missing or has no bucket under that department; and a module
  whose course reference finds no course is listed nowhere in the result.
\<close>

theorem structured_modules_skip_orphans:
  "getStructuredModules [cat_CS] [cat_CS101] [cat_M1, cat_M2, cat_Morphan]
     = [(''CS'', \<lparr>db_id = ''CS'', db_name = ''Computer Science'', db_code = ''CS'',
          db_courses =
            [(''CS101'', \<lparr>cb_id = ''CS101'', cb_name = ''Programming'', cb_code = ''CS101'',
               cb_semesters =
                 [(1, [populate [cat_CS] [cat_CS101] cat_M1,
                       populate [cat_CS] [cat_CS101] cat_M2])]\<rparr>)]\<rparr>)]
   \<and> map pm_doc (listed_modules
         (getStructuredModules [cat_CS] [cat_CS101] [cat_M1, cat_M2, cat_Morphan]))
       = [cat_M1, cat_M2]
   \<and> (obj_get struc (crs_department course) = None \<longrightarrow> add_course struc course = struc)
   \<and> (module_depId m = None \<or> (module_depId m = Some d \<and> obj_get struc d = None)
        \<longrightarrow> add_module struc m = struc)
   \<and> (module_depId m = Some d \<and> obj_get struc d = Some b
        \<and> (module_courseId m = None
            \<or> (module_courseId m = Some c \<and> obj_get (db_courses b) c = None))
        \<longrightarrow> add_module struc m = struc)
   \<and> (findById crs_id (mod_course md) crs = None
        \<longrightarrow> populate deps crs md \<notin> set (listed_modules (getStructuredModules deps crs mods)))"
proof -
  have 1: "map pm_doc (listed_modules
         (getStructuredModules [cat_CS] [cat_CS101] [cat_M1, cat_M2, cat_Morphan]))
       = [cat_M1, cat_M2]"
    unfolding structured_example
    by (simp add: listed_modules_def department_modules_def course_modules_def populate_def)
  have 2: "obj_get struc (crs_department course) = None \<longrightarrow> add_course struc course = struc"
    by (simp add: add_course_def)
  have 3: "module_depId m = None \<or> (module_depId m = Some d \<and> obj_get struc d = None)
        \<longrightarrow> add_module struc m = struc"
    by (auto simp: add_module_def)
  have 4: "module_depId m = Some d \<and> obj_get struc d = Some b
        \<and> (module_courseId m = None
            \<or> (module_courseId m = Some c \<and> obj_get (db_courses b) c = None))
        \<longrightarrow> add_module struc m = struc"
    by (auto simp: add_module_def)
  have 5: "findById crs_id (mod_course md) crs = None
        \<longrightarrow> populate deps crs md \<notin> set (listed_modules (getStructuredModules deps crs mods))"
  proof
    assume "findById crs_id (mod_course md) crs = None"
    then have "pm_course (populate deps crs md) = None"
      by (simp add: populate_def)
    with listed_getStructuredModules [of deps crs mods] show
      "populate deps crs md \<notin> set (listed_modules (getStructuredModules deps crs mods))"
      by auto
  qed
  from structured_example 1 2 3 4 5 show ?thesis by blast
qed

theorem structured_modules_skip_orphans_witness:
  "obj_get (add_department [] cat_CS :: int structure_obj) ''EE'' = None
   \<and> add_course (add_department [] cat_CS :: int structure_obj)
        (cat_CS101\<lparr>crs_department := ''EE''\<rparr>) = add_department [] cat_CS
   \<and> module_depId (populate [cat_CS] [cat_CS101] cat_Morphan) = Some ''CS''
   \<and> module_courseId (populate [cat_CS] [cat_CS101] cat_Morphan) = None
   \<and> add_module (add_course (add_department [] cat_CS) cat_CS101)
        (populate [cat_CS] [cat_CS101] cat_Morphan)
       = add_course (add_department [] cat_CS) cat_CS101
   \<and> findById crs_id (mod_course cat_Morphan) [cat_CS101] = None
   \<and> populate [cat_CS] [cat_CS101] cat_Morphan
       \<notin> set (listed_modules
                (getStructuredModules [cat_CS] [cat_CS101] [cat_M1, cat_M2, cat_Morphan]))"
proof -
  let ?s0 = "add_department [] cat_CS :: int structure_obj"
  let ?s1 = "add_course ?s0 cat_CS101"
  let ?pm = "populate [cat_CS] [cat_CS101] cat_Morphan"
  let ?b = "\<lparr>db_id = ''CS'', db_name = ''Computer Science'', db_code = ''CS'',
             db_courses = [(''CS101'', \<lparr>cb_id = ''CS101'', cb_name = ''Programming'',
               cb_code = ''CS101'',
               cb_semesters = ([] :: (int \<times> int populated_module list) list)\<rparr>)]\<rparr>"
  have a: "obj_get ?s0 (crs_department (cat_CS101\<lparr>crs_department := ''EE''\<rparr>)) = None"
    by (simp add: add_department_def obj_get_def cat_CS_def)
  have d: "module_depId ?pm = Some ''CS''"
    by (simp add: module_depId_def populate_def findById_def findOne_def cat_Morphan_def
        cat_module_def cat_CS_def)
  have c: "module_courseId ?pm = None"
    by (simp add: module_courseId_def populate_def findById_def findOne_def cat_Morphan_def
        cat_module_def cat_CS101_def)
  have b: "obj_get ?s1 ''CS'' = Some ?b"
    by (simp add: add_course_def add_department_def obj_get_def cat_CS_def cat_CS101_def
        Let_def)
  have f: "findById crs_id (mod_course cat_Morphan) [cat_CS101] = None"
    by (simp add: findById_def findOne_def cat_Morphan_def cat_module_def cat_CS101_def)
  note skip = structured_modules_skip_orphans
  from skip [where struc = ?s0 and course = "cat_CS101\<lparr>crs_department := ''EE''\<rparr>"] a
  have 1: "add_course ?s0 (cat_CS101\<lparr>crs_department := ''EE''\<rparr>) = ?s0"
    by blast
  from skip [where struc = ?s1 and m = ?pm and d = "''CS''" and b = ?b] d c b
  have 2: "add_module ?s1 ?pm = ?s1"
    by blast
  from skip [where md = cat_Morphan and crs = "[cat_CS101]" and deps = "[cat_CS]"
      and mods = "[cat_M1, cat_M2, cat_Morphan]"] f
  have 3: "?pm \<notin> set (listed_modules
                (getStructuredModules [cat_CS] [cat_CS101] [cat_M1, cat_M2, cat_Morphan]))"
    by blast
  from a 1 d c 2 f 3 show ?thesis by simp
qed

subsection \<open>The department of a module and of its course\<close>

text \<open>
  C3 as stated does not hold: a module whose department differs from the department
  of its course, and whose department is not in the store, is rejected with
  \<open>MissingReference\<close> (\<^verbatim>\<open>'Department not found'\<close>), not with \<open>ReferenceMismatch\<close>.
\<close>

theorem module_department_missing_counterexample:
  "findById crs_id (mod_course (ex_module\<lparr>mod_code := ''M2'', mod_department := ''d2''\<rparr>))
      (courses ex_store) = Some ex_course
   \<and> mod_department (ex_module\<lparr>mod_code := ''M2'', mod_department := ''d2''\<rparr>)
       \<noteq> crs_department ex_course
   \<and> moduleSchema_pre_save ex_store (ex_module\<lparr>mod_code := ''M2'', mod_department := ''d2''\<rparr>)
       = Inl MissingReference
   \<and> Module_save ex_ops ex_store (ex_module\<lparr>mod_code := ''M2'', mod_department := ''d2''\<rparr>)
       = Inl MissingReference
   \<and> createModule ex_ops ex_store (ex_body\<lparr>mb_department := ''d2''\<rparr>) ''m2''
       = (Inl MissingReference, ex_store)"
proof -
  let ?m = "ex_module\<lparr>mod_code := ''M2'', mod_department := ''d2''\<rparr>"
  have c: "findById crs_id (mod_course ?m) (courses ex_store) = Some ex_course"
    by (simp add: findById_def findOne_def ex_store_def ex_module_def ex_course_def)
  have n: "mod_department ?m \<noteq> crs_department ex_course"
    by (simp add: ex_course_def)
  have d: "findById dep_id ''d2'' (departments ex_store) = None"
    by (simp add: findById_def findOne_def ex_store_def ex_dep_def)
  have h: "moduleSchema_pre_save ex_store ?m = Inl MissingReference"
    using c d by (simp add: moduleSchema_pre_save_def)
  have v: "Module_validate ex_ops ?m"
    by (simp add: Module_validate_def ex_ops_def ex_module_def)
  have s: "Module_save ex_ops ex_store ?m = Inl MissingReference"
    by (simp add: Module_save_def v h)
  have r: "createModule ex_ops ex_store (ex_body\<lparr>mb_department := ''d2''\<rparr>) ''m2''
       = (Inl MissingReference, ex_store)"
    by (simp add: createModule_def Module_save_def Module_validate_def
        moduleSchema_pre_save_def findById_def findOne_def Let_def
        cast_code_def toUpperCase_def trim_def toUpperCase_char_def is_white_space_def
        ex_body_def ex_store_def ex_module_def ex_course_def ex_dep_def ex_ops_def)
  from c n h s r show ?thesis by blast
qed

text \<open>
  C3, amended. For a module \<open>m\<close> presented for creation whose course is found and
  whose department differs from the department of the course, the creation fails and
  the module is not stored. The pre-save hook fails with \<open>ReferenceMismatch\<close> when the
  department of \<open>m\<close> is found and with \<open>MissingReference\<close> when it is not.
  \<^verbatim>\<open>save()\<close> replies that error when \<open>m\<close> passes the schema validators, which run
  before the hook, and \<open>ValidationError\<close> when it does not. \<^verbatim>\<open>createModule\<close> replies
  that error when its earlier checks pass (no stored module has the code, the weight
  check passes, credits and semester are numbers, the validators pass), and else the
  error of the first check that fails (\<open>DuplicateKey\<close>, or \<open>ValidationError\<close>). If the
  two departments are equal and the department is found, the hook passes.
\<close>

theorem module_department_check:
  assumes "findById crs_id (mod_course m) (courses st) = Some c"
  shows "(mod_department m \<noteq> crs_department c
          \<longrightarrow> moduleSchema_pre_save st m
                = Inl (if findById dep_id (mod_department m) (departments st) = None
                       then MissingReference else ReferenceMismatch)
              \<and> Module_save ops st m
                  = Inl (if \<not> Module_validate ops m then ValidationError
                         else if findById dep_id (mod_department m) (departments st) = None
                         then MissingReference else ReferenceMismatch))
       \<and> (mod_department m \<noteq> crs_department c
            \<and> mb_course body = mod_course m \<and> mb_department body = mod_department m
          \<longrightarrow> (\<exists>e. createModule ops st body new_id = (Inl e, st))
              \<and> (findOne (\<lambda>x. mod_code x = cast_code (mb_code body)) (modules st) \<noteq> None
                  \<longrightarrow> createModule ops st body new_id
                        = (Inl (DuplicateKey ''Module with this code already exists''), st))
              \<and> (findOne (\<lambda>x. mod_code x = cast_code (mb_code body)) (modules st) = None
                   \<and> (weights_off ops (mb_examWeight body) (mb_courseworkWeight body)
                         (mb_practicalWeight body)
                       \<or> mb_credits body = None \<or> mb_semester body = None)
                  \<longrightarrow> createModule ops st body new_id = (Inl ValidationError, st))
              \<and> (findOne (\<lambda>x. mod_code x = cast_code (mb_code body)) (modules st) = None
                   \<and> \<not> weights_off ops (mb_examWeight body) (mb_courseworkWeight body)
                         (mb_practicalWeight body)
                   \<and> mb_credits body = Some credits \<and> mb_semester body = Some semester
                  \<longrightarrow> createModule ops st body new_id
                        = (Inl (if \<not> Module_validate ops (new_Module body new_id credits semester)
                                then ValidationError
                                else if findById dep_id (mod_department m) (departments st) = None
                                then MissingReference else ReferenceMismatch), st)))
       \<and> (mod_department m = crs_department c
            \<and> findById dep_id (mod_department m) (departments st) = Some d
          \<longrightarrow> moduleSchema_pre_save st m = Inr ())"
proof -
  have hook: "moduleSchema_pre_save st m
                = Inl (if findById dep_id (mod_department m) (departments st) = None
                       then MissingReference else ReferenceMismatch)"
    if "mod_department m \<noteq> crs_department c"
    using assms that by (auto simp: moduleSchema_pre_save_def split: option.splits)
  have 1: "mod_department m \<noteq> crs_department c
          \<longrightarrow> moduleSchema_pre_save st m
                = Inl (if findById dep_id (mod_department m) (departments st) = None
                       then MissingReference else ReferenceMismatch)
              \<and> Module_save ops st m
                  = Inl (if \<not> Module_validate ops m then ValidationError
                         else if findById dep_id (mod_department m) (departments st) = None
                         then MissingReference else ReferenceMismatch)"
    using hook by (simp add: Module_save_def)
  have 2: "(\<exists>e. createModule ops st body new_id = (Inl e, st))
              \<and> (findOne (\<lambda>x. mod_code x = cast_code (mb_code body)) (modules st) \<noteq> None
                  \<longrightarrow> createModule ops st body new_id
                        = (Inl (DuplicateKey ''Module with this code already exists''), st))
              \<and> (findOne (\<lambda>x. mod_code x = cast_code (mb_code body)) (modules st) = None
                   \<and> (weights_off ops (mb_examWeight body) (mb_courseworkWeight body)
                         (mb_practicalWeight body)
                       \<or> mb_credits body = None \<or> mb_semester body = None)
                  \<longrightarrow> createModule ops st body new_id = (Inl ValidationError, st))
              \<and> (findOne (\<lambda>x. mod_code x = cast_code (mb_code body)) (modules st) = None
                   \<and> \<not> weights_off ops (mb_examWeight body) (mb_courseworkWeight body)
                         (mb_practicalWeight body)
                   \<and> mb_credits body = Some credits \<and> mb_semester body = Some semester
                  \<longrightarrow> createModule ops st body new_id
                        = (Inl (if \<not> Module_validate ops (new_Module body new_id credits semester)
                                then ValidationError
                                else if findById dep_id (mod_department m) (departments st) = None
                                then MissingReference else ReferenceMismatch), st))"
    if n: "mod_department m \<noteq> crs_department c"
      and b: "mb_course body = mod_course m" "mb_department body = mod_department m"
  proof -
    have h: "moduleSchema_pre_save st (new_Module body new_id cr se)
                = Inl (if findById dep_id (mod_department m) (departments st) = None
                       then MissingReference else ReferenceMismatch)" for cr se
      using assms n b
      by (auto simp: moduleSchema_pre_save_def new_Module_def split: option.splits)
    have s: "Module_save ops st (new_Module body new_id cr se)
                = Inl (if \<not> Module_validate ops (new_Module body new_id cr se)
                       then ValidationError
                       else if findById dep_id (mod_department m) (departments st) = None
                       then MissingReference else ReferenceMismatch)" for cr se
      by (simp add: Module_save_def h)
    have c: "createModule ops st body new_id
        = (if findOne (\<lambda>x. mod_code x = cast_code (mb_code body)) (modules st) \<noteq> None
           then (Inl (DuplicateKey ''Module with this code already exists''), st)
           else if weights_off ops (mb_examWeight body) (mb_courseworkWeight body)
                     (mb_practicalWeight body)
           then (Inl ValidationError, st)
           else (case (mb_credits body, mb_semester body) of
                   (Some cr, Some se) \<Rightarrow>
                     (case Module_save ops st (new_Module body new_id cr se) of
                        Inl err \<Rightarrow> (Inl err, st)
                      | Inr st' \<Rightarrow> (Inr (new_Module body new_id cr se), st'))
                 | _ \<Rightarrow> (Inl ValidationError, st)))"
      by (auto simp: createModule_def new_Module_def Let_def split: option.splits sum.splits)
    show ?thesis
      unfolding c by (auto simp: s split: option.splits)
  qed
  have 3: "mod_department m = crs_department c
            \<and> findById dep_id (mod_department m) (departments st) = Some d
          \<longrightarrow> moduleSchema_pre_save st m = Inr ()"
    using assms by (simp add: moduleSchema_pre_save_def)
  from 1 2 3 show ?thesis by blast
qed

theorem module_department_check_witness:
  "findById crs_id (mod_course (ex_module\<lparr>mod_code := ''M2'', mod_department := ''d2''\<rparr>))
      (courses ex_store2) = Some ex_course
   \<and> findById dep_id ''d2'' (departments ex_store2) = Some ex_dep2
   \<and> moduleSchema_pre_save ex_store2 (ex_module\<lparr>mod_code := ''M2'', mod_department := ''d2''\<rparr>)
       = Inl ReferenceMismatch
   \<and> Module_save ex_ops ex_store2 (ex_module\<lparr>mod_code := ''M2'', mod_department := ''d2''\<rparr>)
       = Inl ReferenceMismatch
   \<and> Module_save ex_ops ex_store2
        (ex_module\<lparr>mod_code := ''M2'', mod_department := ''d2'', mod_credits := 0\<rparr>)
       = Inl ValidationError
   \<and> createModule ex_ops ex_store2 (ex_body\<lparr>mb_department := ''d2''\<rparr>) ''m2''
       = (Inl ReferenceMismatch, ex_store2)
   \<and> createModule ex_ops ex_store2 (ex_body\<lparr>mb_department := ''d2'', mb_code := ''m1''\<rparr>) ''m2''
       = (Inl (DuplicateKey ''Module with this code already exists''), ex_store2)
   \<and> createModule ex_ops ex_store2
        (ex_body\<lparr>mb_department := ''d2'', mb_examWeight := 50\<rparr>) ''m2''
       = (Inl ValidationError, ex_store2)
   \<and> findById dep_id ''d2'' (departments ex_store) = None
   \<and> moduleSchema_pre_save ex_store (ex_module\<lparr>mod_code := ''M2'', mod_department := ''d2''\<rparr>)
       = Inl MissingReference
   \<and> Module_save ex_ops ex_store (ex_module\<lparr>mod_code := ''M2'', mod_department := ''d2''\<rparr>)
       = Inl MissingReference
   \<and> createModule ex_ops ex_store (ex_body\<lparr>mb_department := ''d2''\<rparr>) ''m2''
       = (Inl MissingReference, ex_store)
   \<and> findById dep_id ''d1'' (departments ex_store) = Some ex_dep
   \<and> moduleSchema_pre_save ex_store (ex_module\<lparr>mod_code := ''M2''\<rparr>) = Inr ()"
proof -
  let ?m = "ex_module\<lparr>mod_code := ''M2'', mod_department := ''d2''\<rparr>"
  let ?low = "ex_module\<lparr>mod_code := ''M2'', mod_department := ''d2'', mod_credits := 0\<rparr>"
  let ?ok = "ex_module\<lparr>mod_code := ''M2''\<rparr>"
  let ?body = "ex_body\<lparr>mb_department := ''d2''\<rparr>"
  let ?dup = "ex_body\<lparr>mb_department := ''d2'', mb_code := ''m1''\<rparr>"
  let ?off = "ex_body\<lparr>mb_department := ''d2'', mb_examWeight := 50\<rparr>"
  let ?pre = "\<lambda>b s. findOne (\<lambda>x. mod_code x = cast_code (mb_code b)) (modules s)"
  have c2: "findById crs_id (mod_course ?m) (courses ex_store2) = Some ex_course"
    by (simp add: findById_def findOne_def ex_store2_def ex_store_def ex_module_def
        ex_course_def)
  have c20: "findById crs_id (mod_course ?low) (courses ex_store2) = Some ex_course"
    by (simp add: findById_def findOne_def ex_store2_def ex_store_def ex_module_def
        ex_course_def)
  have c1: "findById crs_id (mod_course ?m) (courses ex_store) = Some ex_course"
    by (simp add: findById_def findOne_def ex_store_def ex_module_def ex_course_def)
  have c0: "findById crs_id (mod_course ?ok) (courses ex_store) = Some ex_course"
    by (simp add: findById_def findOne_def ex_store_def ex_module_def ex_course_def)
  have d2: "findById dep_id ''d2'' (departments ex_store2) = Some ex_dep2"
    by (simp add: findById_def findOne_def ex_store2_def ex_dep_def ex_dep2_def)
  have d1: "findById dep_id ''d2'' (departments ex_store) = None"
    by (simp add: findById_def findOne_def ex_store_def ex_dep_def)
  have d0: "findById dep_id ''d1'' (departments ex_store) = Some ex_dep"
    by (simp add: findById_def findOne_def ex_store_def ex_dep_def)
  have n: "mod_department ?m \<noteq> crs_department ex_course"
      "mod_department ?low \<noteq> crs_department ex_course"
    by (simp_all add: ex_course_def)
  have e: "mod_department ?ok = crs_department ex_course"
    by (simp add: ex_course_def ex_module_def)
  have v: "Module_validate ex_ops ?m" "\<not> Module_validate ex_ops ?low"
    by (simp_all add: Module_validate_def ex_ops_def ex_module_def)
  have b: "mb_course ?body = mod_course ?m \<and> mb_department ?body = mod_department ?m"
      "mb_course ?dup = mod_course ?m \<and> mb_department ?dup = mod_department ?m"
      "mb_course ?off = mod_course ?m \<and> mb_department ?off = mod_department ?m"
    by (simp_all add: ex_body_def ex_module_def)
  have i: "mod_department ?m = ''d2''" "mod_department ?low = ''d2''"
      "mod_department ?ok = ''d1''"
    by (simp_all add: ex_module_def)
  have k: "cast_code ''cs101'' = ''CS101''" "cast_code ''m1'' = ''M1''"
    by (simp_all add: cast_code_def toUpperCase_def trim_def toUpperCase_char_def
        is_white_space_def)
  have p: "?pre ?body ex_store2 = None" "?pre ?off ex_store2 = None"
      "?pre ?dup ex_store2 \<noteq> None" "?pre ?body ex_store = None"
    by (simp_all add: ex_body_def k findOne_def ex_store2_def ex_store_def ex_module_def)
  have w: "\<not> weights_off ex_ops (mb_examWeight ?body) (mb_courseworkWeight ?body)
               (mb_practicalWeight ?body)"
      "weights_off ex_ops (mb_examWeight ?off) (mb_courseworkWeight ?off)
               (mb_practicalWeight ?off)"
    by (simp_all add: ex_ops_def ex_body_def)
  have cs: "mb_credits ?body = Some 10 \<and> mb_semester ?body = Some 2"
    by (simp add: ex_body_def)
  have vn: "Module_validate ex_ops (new_Module ?body ''m2'' 10 2)"
    by (simp add: Module_validate_def new_Module_def ex_ops_def ex_body_def k
        trim_def is_white_space_def cast_code_def toUpperCase_def toUpperCase_char_def)
  note chk = module_department_check
  from chk [OF c2, where ops = ex_ops] n d2 v
  have 1: "moduleSchema_pre_save ex_store2 ?m = Inl ReferenceMismatch
      \<and> Module_save ex_ops ex_store2 ?m = Inl ReferenceMismatch"
    unfolding i by simp
  from chk [OF c20, where ops = ex_ops] n d2 v
  have 2: "Module_save ex_ops ex_store2 ?low = Inl ValidationError"
    unfolding i by simp
  from chk [OF c2, where body = ?body and ops = ex_ops and new_id = "''m2''"
      and credits = 10 and semester = 2] n b p w cs vn d2
  have 3: "createModule ex_ops ex_store2 ?body ''m2'' = (Inl ReferenceMismatch, ex_store2)"
    unfolding i by simp
  from chk [OF c2, where body = ?dup and ops = ex_ops and new_id = "''m2''"] n b p
  have 4: "createModule ex_ops ex_store2 ?dup ''m2''
      = (Inl (DuplicateKey ''Module with this code already exists''), ex_store2)"
    by blast
  from chk [OF c2, where body = ?off and ops = ex_ops and new_id = "''m2''"] n b p w
  have 5: "createModule ex_ops ex_store2 ?off ''m2'' = (Inl ValidationError, ex_store2)"
    by blast
  from chk [OF c1, where ops = ex_ops] n d1 v
  have 6: "moduleSchema_pre_save ex_store ?m = Inl MissingReference
      \<and> Module_save ex_ops ex_store ?m = Inl MissingReference"
    unfolding i by simp
  from chk [OF c1, where body = ?body and ops = ex_ops and new_id = "''m2''"
      and credits = 10 and semester = 2] n b p w cs vn d1
  have 7: "createModule ex_ops ex_store ?body ''m2'' = (Inl MissingReference, ex_store)"
    unfolding i by simp
  from chk [OF c0, where d = ex_dep] e d0
  have 8: "moduleSchema_pre_save ex_store ?ok = Inr ()"
    unfolding i by blast
  from c2 d2 1 2 3 4 5 d1 6 7 d0 8 show ?thesis by blast
qed

subsection \<open>The code of a module\<close>

lemma findOne_mem: "x \<in> set xs \<Longrightarrow> p x \<Longrightarrow> findOne p xs \<noteq> None"
  by (auto simp: findOne_def find_None_iff)

text \<open>
  C7. In a store that holds a module with the code \<^verbatim>\<open>CS101\<close>, \<^verbatim>\<open>createModule\<close>
  with the submitted code \<^verbatim>\<open>cs101\<close> replies \<open>DuplicateKey\<close> and leaves the store as
  it was; so it does whenever the stored code is the submitted code in upper case
  (and trimmed). The unique index stands behind the check of the controller: no
  \<^verbatim>\<open>save()\<close> stores a module whose code is stored already, and the code that
  \<^verbatim>\<open>createModule\<close> would store for \<^verbatim>\<open>cs101\<close> is \<^verbatim>\<open>CS101\<close>.
\<close>

theorem createModule_code_case_insensitive:
  assumes "x \<in> set (modules st)"
  shows "(mod_code x = ''CS101'' \<and> mb_code body = ''cs101''
          \<longrightarrow> createModule ops st body new_id
                = (Inl (DuplicateKey ''Module with this code already exists''), st))
       \<and> (mod_code x = toUpperCase (trim (mb_code body))
          \<longrightarrow> createModule ops st body new_id
                = (Inl (DuplicateKey ''Module with this code already exists''), st))
       \<and> cast_code (toUpperCase ''cs101'') = ''CS101''
       \<and> (mod_code x = mod_code m \<longrightarrow> (\<exists>e. Module_save ops st m = Inl e))
       \<and> (mod_code x = mod_code m \<and> Module_validate ops m
            \<and> moduleSchema_pre_save st m = Inr ()
          \<longrightarrow> Module_save ops st m = Inl E11000)"
proof -
  have k: "toUpperCase (trim ''cs101'') = ''CS101''"
    by (simp add: toUpperCase_def trim_def toUpperCase_char_def is_white_space_def)
  have k': "cast_code (toUpperCase ''cs101'') = ''CS101''"
    by (simp add: cast_code_def toUpperCase_def trim_def toUpperCase_char_def
        is_white_space_def)
  have 2: "mod_code x = toUpperCase (trim (mb_code body))
          \<longrightarrow> createModule ops st body new_id
                = (Inl (DuplicateKey ''Module with this code already exists''), st)"
    using findOne_mem [OF assms, of "\<lambda>m. mod_code m = cast_code (mb_code body)"]
    by (simp add: createModule_def cast_code_def)
  have 1: "mod_code x = ''CS101'' \<and> mb_code body = ''cs101''
          \<longrightarrow> createModule ops st body new_id
                = (Inl (DuplicateKey ''Module with this code already exists''), st)"
    using 2 k by simp
  have 3: "mod_code x = mod_code m \<longrightarrow> (\<exists>e. Module_save ops st m = Inl e)"
    using findOne_mem [OF assms, of "\<lambda>y. mod_code y = mod_code m"]
    by (auto simp: Module_save_def split: sum.splits)
  have 4: "mod_code x = mod_code m \<and> Module_validate ops m
            \<and> moduleSchema_pre_save st m = Inr ()
          \<longrightarrow> Module_save ops st m = Inl E11000"
    using findOne_mem [OF assms, of "\<lambda>y. mod_code y = mod_code m"]
    by (simp add: Module_save_def)
  from 1 2 k' 3 4 show ?thesis by blast
qed

theorem createModule_code_case_insensitive_witness:
  "ex_module_CS101 \<in> set (modules (ex_store\<lparr>modules := [ex_module_CS101]\<rparr>))
   \<and> mod_code ex_module_CS101 = ''CS101''
   \<and> mb_code ex_body = ''cs101''
   \<and> createModule ex_ops (ex_store\<lparr>modules := [ex_module_CS101]\<rparr>) ex_body ''m2''
       = (Inl (DuplicateKey ''Module with this code already exists''),
          ex_store\<lparr>modules := [ex_module_CS101]\<rparr>)
   \<and> Module_validate ex_ops (ex_module_CS101\<lparr>mod_id := ''m2''\<rparr>)
   \<and> moduleSchema_pre_save (ex_store\<lparr>modules := [ex_module_CS101]\<rparr>)
        (ex_module_CS101\<lparr>mod_id := ''m2''\<rparr>) = Inr ()
   \<and> Module_save ex_ops (ex_store\<lparr>modules := [ex_module_CS101]\<rparr>)
        (ex_module_CS101\<lparr>mod_id := ''m2''\<rparr>) = Inl E11000"
proof -
  let ?st = "ex_store\<lparr>modules := [ex_module_CS101]\<rparr>"
  let ?m = "ex_module_CS101\<lparr>mod_id := ''m2''\<rparr>"
  have a: "ex_module_CS101 \<in> set (modules ?st)"
    by simp
  have b: "mod_code ex_module_CS101 = ''CS101''"
    by (simp add: ex_module_CS101_def)
  have c: "mb_code ex_body = ''cs101''"
    by (simp add: ex_body_def)
  have v: "Module_validate ex_ops ?m"
    by (simp add: Module_validate_def ex_ops_def ex_module_CS101_def ex_module_def)
  have h: "moduleSchema_pre_save ?st ?m = Inr ()"
    by (simp add: moduleSchema_pre_save_def findById_def findOne_def ex_store_def
        ex_module_CS101_def ex_module_def ex_course_def ex_dep_def)
  have e: "mod_code ex_module_CS101 = mod_code ?m"
    by simp
  from createModule_code_case_insensitive [OF a, of ex_body ex_ops "''m2''"] b c
  have 1: "createModule ex_ops ?st ex_body ''m2''
       = (Inl (DuplicateKey ''Module with this code already exists''), ?st)"
    by blast
  from createModule_code_case_insensitive [OF a, where m = ?m and ops = ex_ops] e v h
  have 2: "Module_save ex_ops ?st ?m = Inl E11000"
    by blast
  from a b c 1 v h 2 show ?thesis by blast
qed

subsection \<open>Rounding to a double\<close>

lemma quotient_of_abs_pos:
  assumes "x \<noteq> 0"
  shows "0 < fst (quotient_of \<bar>x\<bar>)" "0 < snd (quotient_of \<bar>x\<bar>)"
    "\<bar>x\<bar> = of_int (fst (quotient_of \<bar>x\<bar>)) / of_int (snd (quotient_of \<bar>x\<bar>))"
proof -
  obtain p q where pq: "quotient_of \<bar>x\<bar> = (p, q)" by (cases "quotient_of \<bar>x\<bar>")
  from quotient_of_denom_pos [OF pq] have q: "0 < q" .
  from quotient_of_div [OF pq] have x: "\<bar>x\<bar> = of_int p / of_int q" .
  from assms have "0 < \<bar>x\<bar>" by simp
  with x q have "0 < p" by (simp add: zero_less_divide_iff)
  with q x pq show "0 < fst (quotient_of \<bar>x\<bar>)" "0 < snd (quotient_of \<bar>x\<bar>)"
    "\<bar>x\<bar> = of_int (fst (quotient_of \<bar>x\<bar>)) / of_int (snd (quotient_of \<bar>x\<bar>))"
    by simp_all
qed

lemma powi_double_exponent_le:
  assumes "x \<noteq> 0"
  shows "(2::rat) powi double_exponent x \<le> \<bar>x\<bar>"
proof -
  let ?p = "fst (quotient_of \<bar>x\<bar>)" and ?q = "snd (quotient_of \<bar>x\<bar>)"
  let ?e0 = "bitlen ?p - bitlen ?q"
  note pq = quotient_of_abs_pos [OF assms]
  show ?thesis
  proof (cases "(2::rat) powi ?e0 \<le> \<bar>x\<bar>")
    case True
    then show ?thesis by (simp add: double_exponent_def Let_def)
  next
    case False
    have bp: "2 ^ nat (bitlen ?p - 1) \<le> ?p" using bitlen_bounds [OF pq(1)] by simp
    have bq: "?q < 2 ^ nat (bitlen ?q)" using bitlen_bounds [OF pq(2)] by simp
    have lp: "1 \<le> bitlen ?p" using pq(1) bitlen_bounds [of ?p] bitlen_nonneg [of ?p]
      by (metis bitlen_eq_zero_iff linorder_not_less not_less_iff_gr_or_eq zless_imp_add1_zle zero_less_one zero_le add_0)
    have "(2::rat) powi (?e0 - 1) = 2 powi (bitlen ?p - 1) / 2 powi (bitlen ?q)"
      by (simp add: power_int_diff)
    also have "\<dots> = 2 ^ nat (bitlen ?p - 1) / 2 ^ nat (bitlen ?q)"
      using lp bitlen_nonneg [of ?q] by (simp add: power_int_def)
    also have "\<dots> \<le> of_int ?p / of_int ?q"
    proof -
      have 1: "(2::rat) ^ nat (bitlen ?p - 1) \<le> of_int ?p"
        using bp by (metis of_int_le_iff of_int_numeral of_int_power)
      have 2: "(of_int ?q :: rat) \<le> 2 ^ nat (bitlen ?q)"
        using bq by (metis less_imp_le of_int_le_iff of_int_numeral of_int_power)
      have 3: "(0::rat) < of_int ?q" using pq(2) by simp
      have 4: "(0::rat) \<le> 2 ^ nat (bitlen ?p - 1)" by simp
      show ?thesis by (rule frac_le [OF _ 1 3 2]) (use pq(1) in simp)
    qed
    finally have "(2::rat) powi (?e0 - 1) \<le> \<bar>x\<bar>" using pq(3) by simp
    with False show ?thesis by (simp add: double_exponent_def Let_def)
  qed
qed

lemma double_exponent_less_powi:
  assumes "x \<noteq> 0"
  shows "\<bar>x\<bar> < (2::rat) powi (double_exponent x + 1)"
proof -
  let ?p = "fst (quotient_of \<bar>x\<bar>)" and ?q = "snd (quotient_of \<bar>x\<bar>)"
  let ?e0 = "bitlen ?p - bitlen ?q"
  note pq = quotient_of_abs_pos [OF assms]
  show ?thesis
  proof (cases "(2::rat) powi ?e0 \<le> \<bar>x\<bar>")
    case False
    then show ?thesis by (simp add: double_exponent_def Let_def)
  next
    case True
    have bp: "?p < 2 ^ nat (bitlen ?p)" using bitlen_bounds [OF pq(1)] by simp
    have bq: "2 ^ nat (bitlen ?q - 1) \<le> ?q" using bitlen_bounds [OF pq(2)] by simp
    have lq: "1 \<le> bitlen ?q"
      using pq(2) bitlen_nonneg [of ?q] bitlen_eq_zero_iff [of ?q] by linarith
    have 1: "(of_int ?p :: rat) < 2 ^ nat (bitlen ?p)"
      using bp by (metis of_int_less_iff of_int_numeral of_int_power)
    have 2: "(2::rat) ^ nat (bitlen ?q - 1) \<le> of_int ?q"
      using bq by (metis of_int_le_iff of_int_numeral of_int_power)
    have "\<bar>x\<bar> = of_int ?p / of_int ?q" by (rule pq(3))
    also have "\<dots> < 2 ^ nat (bitlen ?p) / 2 ^ nat (bitlen ?q - 1)"
      by (rule frac_less [OF _ 1 _ 2]) (use pq(1) in simp_all)
    also have "\<dots> = 2 powi (bitlen ?p) / 2 powi (bitlen ?q - 1)"
      using lq bitlen_nonneg [of ?p] by (simp add: power_int_def)
    also have "\<dots> = 2 powi (?e0 + 1)"
      by (simp add: power_int_diff [symmetric] algebra_simps)
    finally show ?thesis using True by (simp add: double_exponent_def Let_def)
  qed
qed

lemma round_half_even_error: "\<bar>of_int (round_half_even y) - y\<bar> \<le> 1 / 2"
proof -
  have "of_int \<lfloor>y\<rfloor> \<le> y" "y < of_int \<lfloor>y\<rfloor> + 1"
    by linarith+
  then show ?thesis
    by (auto simp: round_half_even_def Let_def)
qed

lemma round_quantum_error:
  assumes "0 < q"
  shows "\<bar>of_int (round_half_even (x / q)) * q - x\<bar> \<le> q / 2"
proof -
  have "of_int (round_half_even (x / q)) * q - x = (of_int (round_half_even (x / q)) - x / q) * q"
    using assms by (simp add: left_diff_distrib)
  then have "\<bar>of_int (round_half_even (x / q)) * q - x\<bar>
      = \<bar>of_int (round_half_even (x / q)) - x / q\<bar> * q"
    using assms by (simp add: abs_mult)
  also have "\<dots> \<le> 1 / 2 * q"
    using round_half_even_error [of "x / q"] assms by (intro mult_right_mono) simp_all
  finally show ?thesis by simp
qed

text \<open>
  The rounding without the test on the exponent: a result of magnitude \<open>2\<^sup>1\<^sup>0\<^sup>2\<^sup>4\<close> or
  more is an infinity, every other result is finite.
\<close>

lemma round_double_overflow:
  "round_double x =
     (if x = 0 then Finite 0
      else let e = max (double_exponent x) (- 1022);
               q = 2 powi (e - 52);
               r = of_int (round_half_even (x / q)) * q
           in if 2 powi 1024 \<le> \<bar>r\<bar> then (if 0 < x then PosInf else NegInf) else Finite r)"
proof (cases "x = 0 \<or> 1023 \<le> max (double_exponent x) (- 1022)")
  case True
  then show ?thesis by (auto simp: round_double_def Let_def)
next
  case False
  define e where "e = max (double_exponent x) (- 1022)"
  define q :: rat where "q = 2 powi (e - 52)"
  define r :: rat where "r = of_int (round_half_even (x / q)) * q"
  from False have x: "x \<noteq> 0" and e: "e < 1023" by (auto simp: e_def)
  have q0: "0 < q" by (simp add: q_def)
  have "\<bar>x\<bar> < 2 powi (double_exponent x + 1)"
    by (rule double_exponent_less_powi [OF x])
  also have "\<dots> \<le> 2 powi 1023"
    using e by (intro power_int_increasing) (simp_all add: e_def)
  finally have bx: "\<bar>x\<bar> < 2 powi 1023" .
  have "q \<le> 2 powi 970"
    unfolding q_def using e by (intro power_int_increasing) simp_all
  with round_quantum_error [OF q0, of x] have "\<bar>r - x\<bar> \<le> 2 powi 970 / 2"
    by (simp add: r_def)
  with bx have "\<bar>r\<bar> < 2 powi 1023 + 2 powi 970 / 2" by linarith
  also have "\<dots> \<le> (2::rat) powi 1024" by simp
  finally have "\<not> 2 powi 1024 \<le> \<bar>r\<bar>" by simp
  with x e show ?thesis
    by (simp add: round_double_def Let_def e_def q_def r_def)
qed

lemma round_double_error:
  assumes "\<bar>x\<bar> < 512"
  shows "\<exists>r. round_double x = Finite r \<and> \<bar>r - x\<bar> \<le> 1 / 2 ^ 45"
proof (cases "x = 0")
  case True
  then show ?thesis by (simp add: round_double_def)
next
  case False
  define e where "e = max (double_exponent x) (- 1022)"
  define q :: rat where "q = 2 powi (e - 52)"
  define r :: rat where "r = of_int (round_half_even (x / q)) * q"
  have "double_exponent x < 9"
  proof (rule ccontr)
    assume "\<not> double_exponent x < 9"
    then have "(2::rat) powi 9 \<le> 2 powi double_exponent x"
      by (intro power_int_increasing) simp_all
    with powi_double_exponent_le [OF False] assms show False by simp
  qed
  then have e: "e \<le> 8" by (simp add: e_def)
  have q0: "0 < q" by (simp add: q_def)
  have "q \<le> 2 powi (- 44)"
    unfolding q_def using e by (intro power_int_increasing) simp_all
  then have q: "q \<le> 1 / 2 ^ 44" by (simp add: power_int_minus)
  from round_quantum_error [OF q0, of x] q have b: "\<bar>r - x\<bar> \<le> 1 / 2 ^ 45"
    by (simp add: r_def)
  from e False have "round_double x = Finite r"
    by (simp add: round_double_def Let_def e_def q_def r_def)
  with b show ?thesis by blast
qed

text \<open>
  For weights from 0 to 100 the test of the code agrees with the comparison of the
  exact sum, up to the rounding of the four operations and of the constant: it holds
  when the exact sum is off 100 by more than \<open>0.01 + 10\<^sup>-\<^sup>1\<^sup>2\<close> and fails when the exact sum
  is off by less than \<open>0.01 - 10\<^sup>-\<^sup>1\<^sup>2\<close>.
\<close>

lemma weights_off_margin:
  assumes "0 \<le> e" "e \<le> 100" "0 \<le> c" "c \<le> 100" "0 \<le> p" "p \<le> 100"
  shows "1 / 100 + 1 / 10 ^ 12 < \<bar>e + c + p - 100\<bar>
           \<Longrightarrow> weights_off double_ops (Finite e) (Finite c) (Finite p)"
    and "\<bar>e + c + p - 100\<bar> < 1 / 100 - 1 / 10 ^ 12
           \<Longrightarrow> \<not> weights_off double_ops (Finite e) (Finite c) (Finite p)"
proof -
  define u :: rat where "u = 1 / 2 ^ 45"
  have u: "0 \<le> u" "u \<le> 1 / 5000000000000" by (simp_all add: u_def)
  have m: "(1::rat) / 10 ^ 12 = 1 / 1000000000000" by simp
  obtain r1 where r1: "round_double e = Finite r1" "\<bar>r1 - e\<bar> \<le> u"
    using round_double_error [of e] assms unfolding u_def by auto
  have "\<bar>r1 + c\<bar> < 512" using r1(2) assms u by linarith
  then obtain r2 where r2: "round_double (r1 + c) = Finite r2" "\<bar>r2 - (r1 + c)\<bar> \<le> u"
    using round_double_error [of "r1 + c"] unfolding u_def by auto
  have "\<bar>r2 + p\<bar> < 512" using r1(2) r2(2) assms u by linarith
  then obtain r3 where r3: "round_double (r2 + p) = Finite r3" "\<bar>r3 - (r2 + p)\<bar> \<le> u"
    using round_double_error [of "r2 + p"] unfolding u_def by auto
  have "\<bar>r3 - 100\<bar> < 512" using r1(2) r2(2) r3(2) assms u by linarith
  then obtain r4 where r4: "round_double (r3 - 100) = Finite r4"
      "\<bar>r4 - (r3 - 100)\<bar> \<le> u"
    using round_double_error [of "r3 - 100"] unfolding u_def by auto
  obtain t where t: "round_double (1 / 100) = Finite t" "\<bar>t - 1 / 100\<bar> \<le> u"
    using round_double_error [of "1 / 100"] unfolding u_def by auto
  have w: "weights_off double_ops (Finite e) (Finite c) (Finite p) \<longleftrightarrow> t < \<bar>r4\<bar>"
    by (simp add: double_ops_def totalWeight_def js_sub_def r1 r2 r3 r4 t)
  show "1 / 100 + 1 / 10 ^ 12 < \<bar>e + c + p - 100\<bar>
           \<Longrightarrow> weights_off double_ops (Finite e) (Finite c) (Finite p)"
    unfolding w m using r1(2) r2(2) r3(2) r4(2) t(2) u by linarith
  show "\<bar>e + c + p - 100\<bar> < 1 / 100 - 1 / 10 ^ 12
           \<Longrightarrow> \<not> weights_off double_ops (Finite e) (Finite c) (Finite p)"
    unfolding w m using r1(2) r2(2) r3(2) r4(2) t(2) u by linarith
qed

subsection \<open>The weight check\<close>

lemma createModule_steps:
  "createModule ops st body new_id
     = (if findOne (\<lambda>m. mod_code m = cast_code (mb_code body)) (modules st) \<noteq> None
        then (Inl (DuplicateKey ''Module with this code already exists''), st)
        else if weights_off ops (mb_examWeight body) (mb_courseworkWeight body)
                  (mb_practicalWeight body)
        then (Inl ValidationError, st)
        else (case (mb_credits body, mb_semester body) of
                (Some credits, Some semester) \<Rightarrow>
                  (case Module_save ops st (new_Module body new_id credits semester) of
                     Inl err \<Rightarrow> (Inl err, st)
                   | Inr st' \<Rightarrow> (Inr (new_Module body new_id credits semester), st'))
              | _ \<Rightarrow> (Inl ValidationError, st)))"
  by (auto simp: createModule_def new_Module_def Let_def split: option.splits sum.splits)

lemma js_body_weights:
  "mb_examWeight (js_body e c p) = round_double e"
  "mb_courseworkWeight (js_body e c p) = round_double c"
  "mb_practicalWeight (js_body e c p) = round_double p"
  by (simp_all add: js_body_def)

lemma js_body_new_Module:
  assumes "round_double e = Finite e'" "round_double c = Finite c'" "round_double p = Finite p'"
  shows "new_Module (js_body e c p) ''m2'' 10 2 = js_module e' c' p'"
  using assms
  by (simp add: new_Module_def js_body_def js_module_def cast_code_def toUpperCase_def trim_def
      toUpperCase_char_def is_white_space_def)

lemma js_module_save:
  assumes "0 \<le> e" "e \<le> 100" "0 \<le> c" "c \<le> 100" "0 \<le> p" "p \<le> 100"
  shows "Module_save double_ops js_store (js_module e c p)
           = Inr (js_store\<lparr>modules := [js_module e c p]\<rparr>)"
  using assms
  by (simp add: Module_save_def Module_validate_def moduleSchema_pre_save_def findById_def
      findOne_def double_ops_def js_store_def js_module_def ex_course_def ex_dep_def)

lemma js_store_no_code:
  "findOne (\<lambda>m. mod_code m = cast_code (mb_code body)) (modules js_store) = None"
  by (simp add: js_store_def findOne_def)

text \<open>
  C6 as stated, with the sum and the difference of the weights as numbers, does not
  hold. The doubles nearest to 99.52, 0.48 and 0.01 sum to a number within 0.01 of 100,
  and \<^verbatim>\<open>createModule\<close> replies \<open>ValidationError\<close>: the rounded sum is the double
  above 100.01. The doubles nearest to 19.31, 40.58 and 40.1 sum to a number that is off
  100 by more than 0.01, and the module is stored.
\<close>

theorem weight_check_rounding_counterexample:
  "mb_examWeight body_over = Finite (7003097420561121 / 70368744177664)
   \<and> mb_courseworkWeight body_over = Finite (1080863910568919 / 2251799813685248)
   \<and> mb_practicalWeight body_over = Finite (5764607523034235 / 576460752303423488)
   \<and> \<bar>7003097420561121 / 70368744177664 + 1080863910568919 / 2251799813685248
        + 5764607523034235 / 576460752303423488 - 100\<bar> \<le> (1 / 100 :: rat)
   \<and> createModule double_ops js_store body_over ''m2'' = (Inl ValidationError, js_store)
   \<and> mb_examWeight body_under = Finite (5435281800282767 / 281474976710656)
   \<and> mb_courseworkWeight body_under = Finite (2855563638729605 / 70368744177664)
   \<and> mb_practicalWeight body_under = Finite (5643573283048653 / 140737488355328)
   \<and> (1 / 100 :: rat)
       < \<bar>5435281800282767 / 281474976710656 + 2855563638729605 / 70368744177664
          + 5643573283048653 / 140737488355328 - 100\<bar>
   \<and> createModule double_ops js_store body_under ''m2''
       = (Inr (js_module (5435281800282767 / 281474976710656)
                 (2855563638729605 / 70368744177664) (5643573283048653 / 140737488355328)),
          js_store\<lparr>modules :=
            [js_module (5435281800282767 / 281474976710656)
               (2855563638729605 / 70368744177664) (5643573283048653 / 140737488355328)]\<rparr>)"
proof -
  have a: "round_double (9952 / 100) = Finite (7003097420561121 / 70368744177664)"
    by code_simp
  have b: "round_double (48 / 100) = Finite (1080863910568919 / 2251799813685248)"
    by code_simp
  have c: "round_double (1 / 100) = Finite (5764607523034235 / 576460752303423488)"
    by code_simp
  have wo: "mb_examWeight body_over = Finite (7003097420561121 / 70368744177664)"
      "mb_courseworkWeight body_over = Finite (1080863910568919 / 2251799813685248)"
      "mb_practicalWeight body_over = Finite (5764607523034235 / 576460752303423488)"
    unfolding body_over_def js_body_weights by (rule a b c)+
  have s1: "\<bar>7003097420561121 / 70368744177664 + 1080863910568919 / 2251799813685248
        + 5764607523034235 / 576460752303423488 - 100\<bar> \<le> (1 / 100 :: rat)"
    by simp
  have w1: "weights_off double_ops (Finite (7003097420561121 / 70368744177664))
      (Finite (1080863910568919 / 2251799813685248))
      (Finite (5764607523034235 / 576460752303423488))"
    by code_simp
  have r1: "createModule double_ops js_store body_over ''m2'' = (Inl ValidationError, js_store)"
    using w1 by (simp add: createModule_steps js_store_no_code wo)
  have d: "round_double (1931 / 100) = Finite (5435281800282767 / 281474976710656)"
    by code_simp
  have e: "round_double (4058 / 100) = Finite (2855563638729605 / 70368744177664)"
    by code_simp
  have f: "round_double (401 / 10) = Finite (5643573283048653 / 140737488355328)"
    by code_simp
  have wu: "mb_examWeight body_under = Finite (5435281800282767 / 281474976710656)"
      "mb_courseworkWeight body_under = Finite (2855563638729605 / 70368744177664)"
      "mb_practicalWeight body_under = Finite (5643573283048653 / 140737488355328)"
    unfolding body_under_def js_body_weights by (rule d e f)+
  have s2: "(1 / 100 :: rat)
       < \<bar>5435281800282767 / 281474976710656 + 2855563638729605 / 70368744177664
          + 5643573283048653 / 140737488355328 - 100\<bar>"
    by simp
  have w2: "\<not> weights_off double_ops (Finite (5435281800282767 / 281474976710656))
      (Finite (2855563638729605 / 70368744177664))
      (Finite (5643573283048653 / 140737488355328))"
    by code_simp
  have cs: "mb_credits body_under = Some 10" "mb_semester body_under = Some 2"
    by (simp_all add: body_under_def js_body_def)
  have nm: "new_Module body_under ''m2'' 10 2
      = js_module (5435281800282767 / 281474976710656) (2855563638729605 / 70368744177664)
          (5643573283048653 / 140737488355328)"
    unfolding body_under_def by (rule js_body_new_Module [OF d e f])
  have sv: "Module_save double_ops js_store
      (js_module (5435281800282767 / 281474976710656) (2855563638729605 / 70368744177664)
         (5643573283048653 / 140737488355328))
      = Inr (js_store\<lparr>modules :=
            [js_module (5435281800282767 / 281474976710656)
               (2855563638729605 / 70368744177664) (5643573283048653 / 140737488355328)]\<rparr>)"
    by (rule js_module_save) simp_all
  have r2: "createModule double_ops js_store body_under ''m2''
       = (Inr (js_module (5435281800282767 / 281474976710656)
                 (2855563638729605 / 70368744177664) (5643573283048653 / 140737488355328)),
          js_store\<lparr>modules :=
            [js_module (5435281800282767 / 281474976710656)
               (2855563638729605 / 70368744177664) (5643573283048653 / 140737488355328)]\<rparr>)"
    using w2 by (simp add: createModule_steps js_store_no_code wu cs nm sv)
  from wo s1 r1 wu s2 r2 show ?thesis by blast
qed

lemma updateModule_steps:
  assumes "findById mod_id i (modules st) = Some stored"
  shows "updateModule ops st i body
     = (if findOne (\<lambda>m. mod_id m \<noteq> mod_id stored
                         \<and> mod_code m = cast_code (toUpperCase (mb_code body)))
             (modules st) \<noteq> None
        then (Inl (DuplicateKey ''Module with this code already exists''), st)
        else if weights_off ops (mb_examWeight body) (mb_courseworkWeight body)
                  (mb_practicalWeight body)
        then (Inl ValidationError, st)
        else (case (mb_credits body, mb_semester body) of
                (Some credits, Some semester) \<Rightarrow>
                  (case Module_save_stored ops st (assign_module stored body credits semester) of
                     Inl err \<Rightarrow> (Inl err, st)
                   | Inr st' \<Rightarrow> (Inr (assign_module stored body credits semester), st'))
              | _ \<Rightarrow> (Inl ValidationError, st)))"
  using assms by (simp add: updateModule_def)

text \<open>
  C6, amended. The test on the weights is
  \<^verbatim>\<open>Math.abs(totalWeight - 100) > 0.01\<close> in binary64 arithmetic: the weights
  are added to 0 in the order exam, coursework, practical, every sum and the difference
  are rounded to the nearest double, and 0.01 is the double nearest to 1/100. Once the
  earlier checks of the controller have passed (\<^verbatim>\<open>createModule\<close>: no stored module
  has the submitted code; \<^verbatim>\<open>updateModule\<close>: the module is found and no other module
  has the code), the operation replies \<open>ValidationError\<close> and writes nothing when the
  test holds; when it does not hold, the weight check passes and the reply is that of
  \<^verbatim>\<open>save()\<close> (or \<open>ValidationError\<close> for credits or a semester that is not a
  number). For weights from 0 to 100, the test holds whenever the exact sum is off 100
  by more than \<open>0.01 + 10\<^sup>-\<^sup>1\<^sup>2\<close>, and does not hold whenever it is off by less than
  \<open>0.01 - 10\<^sup>-\<^sup>1\<^sup>2\<close>.
\<close>

theorem weight_check_double:
  "weights_off double_ops x y z
     = js_gt (js_abs (js_sub (js_add (js_add (js_add (Finite 0) x) y) z) (Finite 100)))
         (round_double (1 / 100))
   \<and> (findOne (\<lambda>m. mod_code m = cast_code (mb_code body)) (modules st) = None
        \<and> weights_off double_ops (mb_examWeight body) (mb_courseworkWeight body)
             (mb_practicalWeight body)
       \<longrightarrow> createModule double_ops st body new_id = (Inl ValidationError, st))
   \<and> (findOne (\<lambda>m. mod_code m = cast_code (mb_code body)) (modules st) = None
        \<and> \<not> weights_off double_ops (mb_examWeight body) (mb_courseworkWeight body)
               (mb_practicalWeight body)
       \<longrightarrow> createModule double_ops st body new_id
             = (case (mb_credits body, mb_semester body) of
                  (Some credits, Some semester) \<Rightarrow>
                    (case Module_save double_ops st (new_Module body new_id credits semester) of
                       Inl err \<Rightarrow> (Inl err, st)
                     | Inr st' \<Rightarrow> (Inr (new_Module body new_id credits semester), st'))
                | _ \<Rightarrow> (Inl ValidationError, st)))
   \<and> (findById mod_id i (modules st) = Some stored
        \<and> findOne (\<lambda>m. mod_id m \<noteq> mod_id stored
                        \<and> mod_code m = cast_code (toUpperCase (mb_code body)))
             (modules st) = None
        \<and> weights_off double_ops (mb_examWeight body) (mb_courseworkWeight body)
             (mb_practicalWeight body)
       \<longrightarrow> updateModule double_ops st i body = (Inl ValidationError, st))
   \<and> (findById mod_id i (modules st) = Some stored
        \<and> findOne (\<lambda>m. mod_id m \<noteq> mod_id stored
                        \<and> mod_code m = cast_code (toUpperCase (mb_code body)))
             (modules st) = None
        \<and> \<not> weights_off double_ops (mb_examWeight body) (mb_courseworkWeight body)
               (mb_practicalWeight body)
       \<longrightarrow> updateModule double_ops st i body
             = (case (mb_credits body, mb_semester body) of
                  (Some credits, Some semester) \<Rightarrow>
                    (case Module_save_stored double_ops st
                            (assign_module stored body credits semester) of
                       Inl err \<Rightarrow> (Inl err, st)
                     | Inr st' \<Rightarrow> (Inr (assign_module stored body credits semester), st'))
                | _ \<Rightarrow> (Inl ValidationError, st)))
   \<and> (0 \<le> e \<and> e \<le> 100 \<and> 0 \<le> c \<and> c \<le> 100 \<and> 0 \<le> p \<and> p \<le> 100
       \<longrightarrow> (1 / 100 + 1 / 10 ^ 12 < \<bar>e + c + p - 100\<bar>
             \<longrightarrow> weights_off double_ops (Finite e) (Finite c) (Finite p))
           \<and> (\<bar>e + c + p - 100\<bar> < 1 / 100 - 1 / 10 ^ 12
             \<longrightarrow> \<not> weights_off double_ops (Finite e) (Finite c) (Finite p)))"
proof -
  have 0: "weights_off double_ops x y z
     = js_gt (js_abs (js_sub (js_add (js_add (js_add (Finite 0) x) y) z) (Finite 100)))
         (round_double (1 / 100))"
    by (simp add: double_ops_def totalWeight_def)
  have 1: "findOne (\<lambda>m. mod_code m = cast_code (mb_code body)) (modules st) = None
        \<and> weights_off double_ops (mb_examWeight body) (mb_courseworkWeight body)
             (mb_practicalWeight body)
       \<longrightarrow> createModule double_ops st body new_id = (Inl ValidationError, st)"
    by (simp add: createModule_steps)
  have 2: "findOne (\<lambda>m. mod_code m = cast_code (mb_code body)) (modules st) = None
        \<and> \<not> weights_off double_ops (mb_examWeight body) (mb_courseworkWeight body)
               (mb_practicalWeight body)
       \<longrightarrow> createModule double_ops st body new_id
             = (case (mb_credits body, mb_semester body) of
                  (Some credits, Some semester) \<Rightarrow>
                    (case Module_save double_ops st (new_Module body new_id credits semester) of
                       Inl err \<Rightarrow> (Inl err, st)
                     | Inr st' \<Rightarrow> (Inr (new_Module body new_id credits semester), st'))
                | _ \<Rightarrow> (Inl ValidationError, st))"
    by (simp add: createModule_steps)
  have 3: "findById mod_id i (modules st) = Some stored
        \<and> findOne (\<lambda>m. mod_id m \<noteq> mod_id stored
                        \<and> mod_code m = cast_code (toUpperCase (mb_code body)))
             (modules st) = None
        \<and> weights_off double_ops (mb_examWeight body) (mb_courseworkWeight body)
             (mb_practicalWeight body)
       \<longrightarrow> updateModule double_ops st i body = (Inl ValidationError, st)"
    by (simp add: updateModule_steps)
  have 4: "findById mod_id i (modules st) = Some stored
        \<and> findOne (\<lambda>m. mod_id m \<noteq> mod_id stored
                        \<and> mod_code m = cast_code (toUpperCase (mb_code body)))
             (modules st) = None
        \<and> \<not> weights_off double_ops (mb_examWeight body) (mb_courseworkWeight body)
               (mb_practicalWeight body)
       \<longrightarrow> updateModule double_ops st i body
             = (case (mb_credits body, mb_semester body) of
                  (Some credits, Some semester) \<Rightarrow>
                    (case Module_save_stored double_ops st
                            (assign_module stored body credits semester) of
                       Inl err \<Rightarrow> (Inl err, st)
                     | Inr st' \<Rightarrow> (Inr (assign_module stored body credits semester), st'))
                | _ \<Rightarrow> (Inl ValidationError, st))"
    by (simp add: updateModule_steps)
  have 5: "0 \<le> e \<and> e \<le> 100 \<and> 0 \<le> c \<and> c \<le> 100 \<and> 0 \<le> p \<and> p \<le> 100
       \<longrightarrow> (1 / 100 + 1 / 10 ^ 12 < \<bar>e + c + p - 100\<bar>
             \<longrightarrow> weights_off double_ops (Finite e) (Finite c) (Finite p))
           \<and> (\<bar>e + c + p - 100\<bar> < 1 / 100 - 1 / 10 ^ 12
             \<longrightarrow> \<not> weights_off double_ops (Finite e) (Finite c) (Finite p))"
    using weights_off_margin [of e c p] by blast
  from 0 1 2 3 4 5 show ?thesis by blast
qed

theorem weight_check_double_witness:
  "findOne (\<lambda>m. mod_code m = cast_code (mb_code body_90)) (modules js_store) = None
   \<and> weights_off double_ops (mb_examWeight body_90) (mb_courseworkWeight body_90)
        (mb_practicalWeight body_90)
   \<and> createModule double_ops js_store body_90 ''m2'' = (Inl ValidationError, js_store)
   \<and> \<not> weights_off double_ops (mb_examWeight body_100) (mb_courseworkWeight body_100)
          (mb_practicalWeight body_100)
   \<and> createModule double_ops js_store body_100 ''m2''
       = (Inr (js_module 60 40 0), js_store\<lparr>modules := [js_module 60 40 0]\<rparr>)
   \<and> findById mod_id ''m2'' (modules (js_store\<lparr>modules := [js_module 60 40 0]\<rparr>))
       = Some (js_module 60 40 0)
   \<and> updateModule double_ops (js_store\<lparr>modules := [js_module 60 40 0]\<rparr>) ''m2'' body_90
       = (Inl ValidationError, js_store\<lparr>modules := [js_module 60 40 0]\<rparr>)
   \<and> (1 / 100 + 1 / 10 ^ 12 :: rat) < \<bar>60 + 30 + 0 - 100\<bar>
   \<and> weights_off double_ops (Finite 60) (Finite 30) (Finite 0)"
proof -
  let ?st = "js_store\<lparr>modules := [js_module 60 40 0]\<rparr>"
  have r: "round_double 60 = Finite 60" "round_double 40 = Finite 40"
      "round_double 30 = Finite 30" "round_double 0 = Finite 0"
    by code_simp+
  have wa: "mb_examWeight body_90 = Finite 60" "mb_courseworkWeight body_90 = Finite 30"
      "mb_practicalWeight body_90 = Finite 0"
    unfolding body_90_def js_body_weights by (rule r)+
  have wb: "mb_examWeight body_100 = Finite 60" "mb_courseworkWeight body_100 = Finite 40"
      "mb_practicalWeight body_100 = Finite 0"
    unfolding body_100_def js_body_weights by (rule r)+
  have pa: "findOne (\<lambda>m. mod_code m = cast_code (mb_code body_90)) (modules js_store) = None"
      "findOne (\<lambda>m. mod_code m = cast_code (mb_code body_100)) (modules js_store) = None"
    by (rule js_store_no_code)+
  have m: "(1 / 100 + 1 / 10 ^ 12 :: rat) < \<bar>60 + 30 + 0 - 100\<bar>"
    by simp
  note chk = weight_check_double
  from chk [where x = "Finite 0" and y = "Finite 0" and z = "Finite 0" and body = body_90
      and st = js_store and new_id = "''m2''" and i = "''m2''"
      and stored = "js_module 60 40 0" and e = 60 and c = 30 and p = 0]
  have "(0::rat) \<le> 60 \<and> (60::rat) \<le> 100 \<and> (0::rat) \<le> 30 \<and> (30::rat) \<le> 100
      \<and> (0::rat) \<le> 0 \<and> (0::rat) \<le> 100
    \<longrightarrow> (1 / 100 + 1 / 10 ^ 12 < \<bar>60 + 30 + 0 - (100::rat)\<bar>
          \<longrightarrow> weights_off double_ops (Finite 60) (Finite 30) (Finite 0))"
    by blast
  with m have w90: "weights_off double_ops (Finite 60) (Finite 30) (Finite 0)"
    by simp
  from chk [where x = "Finite 0" and y = "Finite 0" and z = "Finite 0" and body = body_90
      and st = js_store and new_id = "''m2''" and i = "''m2''"
      and stored = "js_module 60 40 0" and e = 60 and c = 40 and p = 0]
  have "(0::rat) \<le> 60 \<and> (60::rat) \<le> 100 \<and> (0::rat) \<le> 40 \<and> (40::rat) \<le> 100
      \<and> (0::rat) \<le> 0 \<and> (0::rat) \<le> 100
    \<longrightarrow> (\<bar>60 + 40 + 0 - (100::rat)\<bar> < 1 / 100 - 1 / 10 ^ 12
          \<longrightarrow> \<not> weights_off double_ops (Finite 60) (Finite 40) (Finite 0))"
    by blast
  then have w100: "\<not> weights_off double_ops (Finite 60) (Finite 40) (Finite 0)"
    by simp
  from chk [where body = body_90 and st = js_store and new_id = "''m2''"] pa w90
  have 1: "createModule double_ops js_store body_90 ''m2'' = (Inl ValidationError, js_store)"
    unfolding wa by blast
  have cs: "mb_credits body_100 = Some 10" "mb_semester body_100 = Some 2"
    by (simp_all add: body_100_def js_body_def)
  have nm: "new_Module body_100 ''m2'' 10 2 = js_module 60 40 0"
    unfolding body_100_def by (rule js_body_new_Module [OF r(1) r(2) r(4)])
  have sv: "Module_save double_ops js_store (js_module 60 40 0) = Inr ?st"
    by (rule js_module_save) simp_all
  from chk [where body = body_100 and st = js_store and new_id = "''m2''"] pa w100
  have "createModule double_ops js_store body_100 ''m2''
      = (case (mb_credits body_100, mb_semester body_100) of
           (Some credits, Some semester) \<Rightarrow>
             (case Module_save double_ops js_store (new_Module body_100 ''m2'' credits semester) of
                Inl err \<Rightarrow> (Inl err, js_store)
              | Inr st' \<Rightarrow> (Inr (new_Module body_100 ''m2'' credits semester), st'))
         | _ \<Rightarrow> (Inl ValidationError, js_store))"
    unfolding wb by blast
  then have 2: "createModule double_ops js_store body_100 ''m2'' = (Inr (js_module 60 40 0), ?st)"
    by (simp add: cs nm sv)
  have f: "findById mod_id ''m2'' (modules ?st) = Some (js_module 60 40 0)"
    by (simp add: findById_def findOne_def js_module_def)
  have pu: "findOne (\<lambda>m. mod_id m \<noteq> mod_id (js_module 60 40 0)
                        \<and> mod_code m = cast_code (toUpperCase (mb_code body_90)))
             (modules ?st) = None"
    by (simp add: findOne_def)
  from chk [where body = body_90 and st = ?st and i = "''m2''"
      and stored = "js_module 60 40 0"] f pu w90
  have 3: "updateModule double_ops ?st ''m2'' body_90 = (Inl ValidationError, ?st)"
    unfolding wa by blast
  from pa(1) w90 1 w100 2 f 3 m show ?thesis
    unfolding wa wb by blast
qed

subsection \<open>Updating a student\<close>









end
